theory Spec2Isabelle
  imports Main "HOL-Library.Multiset"
begin

section \<open>Data model (pdd\_app/db/models.py)\<close>

text \<open>
  The tables of the application are lists of rows in insertion order; a query
  \<^verbatim>\<open>db.query(T).filter(p).first()\<close> is \<open>find p\<close> on the table. Primary keys are
  Python integers (\<open>int\<close>). Timestamps (\<^verbatim>\<open>datetime.utcnow()\<close>) are whole seconds, passed
  to every handler as the argument \<open>now\<close>. Record fields carry a prefix naming their
  table (\<open>e_score\<close> is \<^verbatim>\<open>Exam.score\<close>), since several tables share column names.
\<close>

datatype ExamStatusChoices = in_progress | completed | failed

datatype RoleChoices = admin | user

datatype scheme = argon2 | bcrypt

text \<open>
  A stored password hash in the symbolic model of passlib: the scheme that produced it,
  the salt drawn when hashing, and the secret that was hashed. Two hashes are equal only
  when all three agree; the secret is never read back except by \<open>verify\<close> below.
\<close>

datatype pw_hash = PwHash scheme string string

record User =
  u_id :: int
  u_email :: string
  u_username :: string
  u_password :: pw_hash
  u_role :: RoleChoices
  u_created_at :: int

record Category =
  cat_id :: int
  category_name :: string

record Question =
  q_id :: int
  q_text :: string
  q_image :: "string option"
  q_explanation :: string
  q_category_id :: int
  q_created_at :: int

record AnswerOption =
  o_id :: int
  o_question_id :: int
  o_text :: string
  o_is_correct :: bool

record Exam =
  e_id :: int
  e_user_id :: int
  e_score :: int
  e_status :: ExamStatusChoices
  e_started_at :: int
  e_finished_at :: "int option"

record ExamAnswer =
  a_id :: int
  a_exam_id :: int
  a_question_id :: int
  a_selected_option_id :: int
  a_is_correct :: bool
  a_answered_at :: int

section \<open>Errors\<close>

text \<open>
  Every \<^verbatim>\<open>raise HTTPException(status_code, detail)\<close> of the source is a value
  \<open>HTTPException code detail\<close>. The detail messages of the source are Russian sentences;
  each is named here by a constructor. The error kinds of the specification are read off
  the pair: Conflict is 400 with \<open>Active_exam_exists\<close> or \<open>Already_answered\<close> (409 in
  registration), InvalidState is 400 with \<open>Exam_already_finished\<close> or \<open>Answered_only\<close>,
  InsufficientData is 400 with \<open>Not_enough_questions\<close>, Unauthorized is 401, Forbidden is
  403, NotFound is 404.
\<close>

datatype detail =
    Active_exam_exists
  | Not_enough_questions nat
  | Exam_not_found
  | Not_your_exam
  | Exam_already_finished
  | Question_not_found
  | Option_not_found
  | Already_answered
  | Answered_only nat nat
  | Email_already_exists
  | Username_already_exists
  | Bad_email_or_password
  | Token_expired
  | Invalid_token
  | Wrong_token_type
  | Token_revoked
  | User_not_found
  | At_least_one_field
  | Only_admin
  | Admin_required
  | Category_not_found

text \<open>
  Exceptions that no handler catches (the framework answers 500): \<^verbatim>\<open>UnknownHashError\<close>
  and \<^verbatim>\<open>PasswordSizeError\<close> of passlib, \<^verbatim>\<open>ValueError\<close> of \<^verbatim>\<open>int\<close>, \<^verbatim>\<open>IntegrityError\<close> and
  \<^verbatim>\<open>InvalidRequestError\<close> of SQLAlchemy, \<^verbatim>\<open>ValidationError\<close> of pydantic raised while a
  handler builds its response. \<open>RequestValidationError\<close> is the 422 for a request body
  that does not fit its schema.
\<close>

datatype error =
    HTTPException nat detail
  | RequestValidationError
  | UnknownHashError
  | PasswordSizeError
  | ValueError
  | IntegrityError
  | InvalidRequestError
  | ValidationError

section \<open>Decimal strings: Python's str and int on integers\<close>

definition digit_char :: "nat \<Rightarrow> char" where
  "digit_char d = char_of (48 + d)"

definition digit_val :: "char \<Rightarrow> nat" where
  "digit_val c = of_char c - 48"

definition is_digit :: "char \<Rightarrow> bool" where
  "is_digit c = (48 \<le> (of_char c :: nat) \<and> (of_char c :: nat) \<le> 57)"

fun str_nat :: "nat \<Rightarrow> string" where
  "str_nat n = (if n < 10 then [digit_char n] else str_nat (n div 10) @ [digit_char (n mod 10)])"

declare str_nat.simps [simp del]

definition str_int :: "int \<Rightarrow> string" where
  "str_int i = (if i < 0 then CHR ''-'' # str_nat (nat (- i)) else str_nat (nat i))"

definition nat_of_digits :: "string \<Rightarrow> nat" where
  "nat_of_digits s = foldl (\<lambda>a c. 10 * a + digit_val c) 0 s"

text \<open>
  \<^verbatim>\<open>int(s)\<close> on an optional sign followed by decimal digits; \<open>None\<close> is the
  \<^verbatim>\<open>ValueError\<close> of Python. (Python also accepts surrounding white space, underscores
  between digits and non-ASCII digits; the strings converted here are the \<open>sub\<close> claims of
  tokens, which the server writes with \<^verbatim>\<open>str\<close>.)
\<close>

definition int_py :: "string \<Rightarrow> int option" where
  "int_py s =
     (case s of
        [] \<Rightarrow> None
      | c # r \<Rightarrow>
          if c = CHR ''-'' then
            (if r \<noteq> [] \<and> list_all is_digit r then Some (- int (nat_of_digits r)) else None)
          else if c = CHR ''+'' then
            (if r \<noteq> [] \<and> list_all is_digit r then Some (int (nat_of_digits r)) else None)
          else if list_all is_digit s then Some (int (nat_of_digits s)) else None)"

section \<open>Tokens (PyJWT, symbolic)\<close>

text \<open>
  The payload that \<^verbatim>\<open>create_access_token\<close> and \<^verbatim>\<open>create_refresh_token\<close> sign: the keys
  \<^verbatim>\<open>sub\<close>, \<^verbatim>\<open>email\<close> (access tokens only), \<^verbatim>\<open>exp\<close> and \<^verbatim>\<open>type\<close>. A token is either that
  payload signed with a key, or a string that is no token at all. Signing is
  deterministic (the key is a shared secret, so the algorithm is an HMAC): equal payloads
  under one key give equal tokens. The \<^verbatim>\<open>exp\<close> claim is written in whole seconds.
\<close>

record claims =
  c_sub :: string
  c_email :: "string option"
  c_exp :: int
  c_type :: string

datatype token = Jwt claims string | Malformed string

record config =
  SECRET_KEY :: string
  ACCESS_TOKEN_EXPIRE_MINUTES :: int
  REFRESH_TOKEN_EXPIRE_DAYS :: int

definition create_access_token :: "config \<Rightarrow> int \<Rightarrow> string \<Rightarrow> string \<Rightarrow> token" where
  "create_access_token cfg now sub email =
     Jwt \<lparr>c_sub = sub, c_email = Some email,
          c_exp = now + ACCESS_TOKEN_EXPIRE_MINUTES cfg * 60, c_type = ''access''\<rparr>
         (SECRET_KEY cfg)"

definition create_refresh_token :: "config \<Rightarrow> int \<Rightarrow> string \<Rightarrow> token" where
  "create_refresh_token cfg now sub =
     Jwt \<lparr>c_sub = sub, c_email = None,
          c_exp = now + REFRESH_TOKEN_EXPIRE_DAYS cfg * 86400, c_type = ''refresh''\<rparr>
         (SECRET_KEY cfg)"

text \<open>
  \<^verbatim>\<open>jwt.decode\<close> checks the signature first, then the expiry (\<^verbatim>\<open>exp <= now\<close> is expired);
  \<^verbatim>\<open>decode_token\<close> turns either failure into a 401.
\<close>

definition decode_token :: "config \<Rightarrow> int \<Rightarrow> token \<Rightarrow> error + claims" where
  "decode_token cfg now tok =
     (case tok of
        Malformed _ \<Rightarrow> Inl (HTTPException 401 Invalid_token)
      | Jwt c k \<Rightarrow>
          if k \<noteq> SECRET_KEY cfg then Inl (HTTPException 401 Invalid_token)
          else if c_exp c \<le> now then Inl (HTTPException 401 Token_expired)
          else Inr c)"

section \<open>The database\<close>

record RefreshToken =
  t_id :: int
  t_user_id :: int
  t_token :: token
  t_created_date :: int

record db =
  users :: "User list"
  refresh_tokens :: "RefreshToken list"
  questions :: "Question list"
  answer_options :: "AnswerOption list"
  exams :: "Exam list"
  exam_answers :: "ExamAnswer list"
  categories :: "Category list"

definition empty_db :: db where
  "empty_db = \<lparr>users = [], refresh_tokens = [], questions = [], answer_options = [],
               exams = [], exam_answers = [], categories = []\<rparr>"

text \<open>An autoincrement primary key: one more than the largest key of the table.\<close>

definition fresh_id :: "int list \<Rightarrow> int" where
  "fresh_id ids = fold max ids 0 + 1"

text \<open>Mutating the row that \<^verbatim>\<open>.first()\<close> returned, and \<^verbatim>\<open>db.delete\<close> of that row.\<close>

fun update_first :: "('a \<Rightarrow> bool) \<Rightarrow> ('a \<Rightarrow> 'a) \<Rightarrow> 'a list \<Rightarrow> 'a list" where
  "update_first P f [] = []"
| "update_first P f (x # xs) = (if P x then f x # xs else x # update_first P f xs)"

fun delete_first :: "('a \<Rightarrow> bool) \<Rightarrow> 'a list \<Rightarrow> 'a list" where
  "delete_first P [] = []"
| "delete_first P (x # xs) = (if P x then xs else x # delete_first P xs)"

text \<open>The relationships \<^verbatim>\<open>Exam.exam_answers\<close> and \<^verbatim>\<open>Question.question_options\<close>.\<close>

definition exam_answers_of :: "db \<Rightarrow> int \<Rightarrow> ExamAnswer list" where
  "exam_answers_of d eid = filter (\<lambda>a. a_exam_id a = eid) (exam_answers d)"

definition question_options :: "db \<Rightarrow> int \<Rightarrow> AnswerOption list" where
  "question_options d qid = filter (\<lambda>opt. o_question_id opt = qid) (answer_options d)"

section \<open>Password hashing (passlib CryptContext, symbolic)\<close>

text \<open>
  \<^verbatim>\<open>CryptContext(schemes=[...])\<close>. Both \<open>hash\<close> and \<open>verify\<close> refuse a secret longer than
  \<^verbatim>\<open>MAX_PASSWORD_SIZE\<close> (4096 characters) with \<^verbatim>\<open>PasswordSizeError\<close>. \<open>hash\<close> uses the
  first scheme with a fresh salt. \<open>verify\<close> first identifies the scheme of the hash and
  raises \<^verbatim>\<open>UnknownHashError\<close> when the context does not list it, then checks the size
  of the secret, then compares.
\<close>

definition MAX_PASSWORD_SIZE :: nat where
  "MAX_PASSWORD_SIZE = 4096"

definition ctx_hash :: "scheme list \<Rightarrow> string \<Rightarrow> string \<Rightarrow> error + pw_hash" where
  "ctx_hash schemes salt password =
     (if MAX_PASSWORD_SIZE < length password then Inl PasswordSizeError
      else Inr (PwHash (hd schemes) salt password))"

definition ctx_verify :: "scheme list \<Rightarrow> string \<Rightarrow> pw_hash \<Rightarrow> error + bool" where
  "ctx_verify schemes plain h =
     (case h of PwHash s salt secret \<Rightarrow>
        if s \<notin> set schemes then Inl UnknownHashError
        else if MAX_PASSWORD_SIZE < length plain then Inl PasswordSizeError
        else Inr (secret = plain))"

text \<open>\<^verbatim>\<open>pwd_context\<close> of auth.py, and the one that user.py and admin.py build.\<close>

definition auth_pwd_context :: "scheme list" where
  "auth_pwd_context = [argon2]"

definition user_pwd_context :: "scheme list" where
  "user_pwd_context = [bcrypt]"

definition hash_password :: "string \<Rightarrow> string \<Rightarrow> error + pw_hash" where
  "hash_password salt password = ctx_hash auth_pwd_context salt password"

definition verify_password :: "string \<Rightarrow> pw_hash \<Rightarrow> error + bool" where
  "verify_password plain_password hashed_password =
     ctx_verify auth_pwd_context plain_password hashed_password"

section \<open>Exam session engine (pdd\_app/api/exams.py)\<close>

definition EXAM_QUESTIONS_COUNT :: nat where
  "EXAM_QUESTIONS_COUNT = 20"

definition PASSING_SCORE :: int where
  "PASSING_SCORE = 18"

text \<open>
  \<^verbatim>\<open>random.sample(population, k)\<close> by its pool algorithm: draw \<open>j\<close> below the number of
  elements left, take \<open>pool[j]\<close>, move the last element of the pool into its place.
  \<open>rnd i\<close> is the raw value of the \<open>i\<close>-th draw. Python raises \<^verbatim>\<open>ValueError\<close> when \<open>k\<close>
  exceeds the population; the only caller checks the size before. (For \<open>k = 20\<close> CPython
  takes this branch for a population of at most 85 elements; for a larger one it draws
  positions and redraws one already chosen, which returns \<open>k\<close> elements at pairwise
  distinct positions as well, but need not use the draws in the same way.)
\<close>

fun sample_pool :: "(nat \<Rightarrow> nat) \<Rightarrow> nat \<Rightarrow> 'a list \<Rightarrow> nat \<Rightarrow> 'a list" where
  "sample_pool rnd i pool 0 = []"
| "sample_pool rnd i pool (Suc k) =
     (let j = rnd i mod length pool
      in pool ! j # sample_pool rnd (Suc i) (butlast (pool[j := last pool])) k)"

definition random_sample :: "(nat \<Rightarrow> nat) \<Rightarrow> 'a list \<Rightarrow> nat \<Rightarrow> 'a list" where
  "random_sample rnd population k = sample_pool rnd 0 population k"

record QuestionOptionSchema =
  qo_id :: string
  qo_text :: string

record QuestionSchema =
  qs_id :: string
  qs_text :: string
  qs_image :: "string option"
  qs_options :: "QuestionOptionSchema list"

record ExamStartResponseSchema =
  sr_exam_id :: int
  sr_started_at :: int
  sr_questions :: "QuestionSchema list"

record ExamAnswerResponseSchema =
  ar_is_correct :: bool
  ar_current_score :: int

record ExamFinishResponseSchema =
  fr_exam_id :: int
  fr_score :: int
  fr_total_questions :: nat
  fr_passed :: bool
  fr_finished_at :: "int option"

definition question_schema :: "db \<Rightarrow> Question \<Rightarrow> QuestionSchema" where
  "question_schema d question =
     \<lparr>qs_id = str_int (q_id question), qs_text = q_text question, qs_image = q_image question,
      qs_options = map (\<lambda>opt. \<lparr>qo_id = str_int (o_id opt), qo_text = o_text opt\<rparr>)
                       (question_options d (q_id question))\<rparr>"

definition start_exam ::
  "db \<Rightarrow> int \<Rightarrow> (nat \<Rightarrow> nat) \<Rightarrow> User \<Rightarrow> error + (db \<times> ExamStartResponseSchema)" where
  "start_exam d now rnd current_user =
     (case find (\<lambda>e. e_user_id e = u_id current_user \<and> e_status e = in_progress) (exams d) of
        Some existing_exam \<Rightarrow> Inl (HTTPException 400 Active_exam_exists)
      | None \<Rightarrow>
          if length (questions d) < EXAM_QUESTIONS_COUNT
          then Inl (HTTPException 400 (Not_enough_questions EXAM_QUESTIONS_COUNT))
          else
            let selected_questions = random_sample rnd (questions d) EXAM_QUESTIONS_COUNT;
                new_exam = \<lparr>e_id = fresh_id (map e_id (exams d)), e_user_id = u_id current_user,
                            e_score = 0, e_status = in_progress, e_started_at = now,
                            e_finished_at = None\<rparr>;
                d' = d\<lparr>exams := exams d @ [new_exam]\<rparr>
            in Inr (d', \<lparr>sr_exam_id = e_id new_exam, sr_started_at = e_started_at new_exam,
                         sr_questions = map (question_schema d') selected_questions\<rparr>))"

definition answer_question ::
  "db \<Rightarrow> int \<Rightarrow> User \<Rightarrow> int \<Rightarrow> int \<Rightarrow> int \<Rightarrow> error + (db \<times> ExamAnswerResponseSchema)" where
  "answer_question d now current_user exam_id question_id option_id =
     (case find (\<lambda>e. e_id e = exam_id) (exams d) of
        None \<Rightarrow> Inl (HTTPException 404 Exam_not_found)
      | Some exam \<Rightarrow>
          if e_user_id exam \<noteq> u_id current_user then Inl (HTTPException 403 Not_your_exam)
          else if e_status exam \<noteq> in_progress then Inl (HTTPException 400 Exam_already_finished)
          else
            (case find (\<lambda>q. q_id q = question_id) (questions d) of
               None \<Rightarrow> Inl (HTTPException 404 Question_not_found)
             | Some question \<Rightarrow>
                 (case find (\<lambda>opt. o_id opt = option_id \<and> o_question_id opt = question_id)
                            (answer_options d) of
                    None \<Rightarrow> Inl (HTTPException 404 Option_not_found)
                  | Some option \<Rightarrow>
                      (case find (\<lambda>a. a_exam_id a = exam_id \<and> a_question_id a = question_id)
                                 (exam_answers d) of
                         Some existing_answer \<Rightarrow> Inl (HTTPException 400 Already_answered)
                       | None \<Rightarrow>
                           let is_correct = o_is_correct option;
                               exam_answer =
                                 \<lparr>a_id = fresh_id (map a_id (exam_answers d)),
                                  a_exam_id = exam_id, a_question_id = question_id,
                                  a_selected_option_id = option_id, a_is_correct = is_correct,
                                  a_answered_at = now\<rparr>;
                               new_score = (if is_correct then e_score exam + 1 else e_score exam);
                               d' = d\<lparr>exam_answers := exam_answers d @ [exam_answer],
                                      exams := update_first (\<lambda>e. e_id e = exam_id)
                                                 (\<lambda>e. e\<lparr>e_score := new_score\<rparr>) (exams d)\<rparr>
                           in Inr (d', \<lparr>ar_is_correct = is_correct,
                                        ar_current_score = new_score\<rparr>)))))"

definition finish_exam ::
  "db \<Rightarrow> int \<Rightarrow> User \<Rightarrow> int \<Rightarrow> error + (db \<times> ExamFinishResponseSchema)" where
  "finish_exam d now current_user exam_id =
     (case find (\<lambda>e. e_id e = exam_id) (exams d) of
        None \<Rightarrow> Inl (HTTPException 404 Exam_not_found)
      | Some exam \<Rightarrow>
          if e_user_id exam \<noteq> u_id current_user then Inl (HTTPException 403 Not_your_exam)
          else if e_status exam \<noteq> in_progress then Inl (HTTPException 400 Exam_already_finished)
          else
            let total_questions = length (exam_answers_of d (e_id exam)) in
            if total_questions < EXAM_QUESTIONS_COUNT
            then Inl (HTTPException 400 (Answered_only total_questions EXAM_QUESTIONS_COUNT))
            else
              let passed = (e_score exam \<ge> PASSING_SCORE);
                  exam' = exam\<lparr>e_status := (if passed then completed else failed),
                               e_finished_at := Some now\<rparr>;
                  d' = d\<lparr>exams := update_first (\<lambda>e. e_id e = exam_id) (\<lambda>e. exam') (exams d)\<rparr>
              in Inr (d', \<lparr>fr_exam_id = e_id exam', fr_score = e_score exam',
                           fr_total_questions = total_questions, fr_passed = passed,
                           fr_finished_at = e_finished_at exam'\<rparr>))"

section \<open>Credential lifecycle (pdd\_app/api/auth.py)\<close>

record UserCreateSchema =
  uc_email :: string
  uc_username :: string
  uc_password :: string

text \<open>
  The request bodies are validated before a handler runs; a body that fails is answered
  with 422 and the handler is not called. \<^verbatim>\<open>EmailStr\<close> belongs to a library outside the
  repository (it checks the syntax of the address and normalises it, lower-casing the
  domain), so it is a parameter here: \<open>EmailStr raw = None\<close> when the string is refused,
  \<open>Some email\<close> with the normalised address otherwise. The handler receives the
  normalised address. The other constraints are the \<^verbatim>\<open>Field\<close> bounds of schema.py.
\<close>

definition validate_UserCreateSchema ::
  "(string \<Rightarrow> string option) \<Rightarrow> string \<Rightarrow> string \<Rightarrow> string \<Rightarrow> UserCreateSchema option" where
  "validate_UserCreateSchema EmailStr email username password =
     (case EmailStr email of
        None \<Rightarrow> None
      | Some normalised \<Rightarrow>
          if 3 \<le> length username \<and> length username \<le> 50 \<and> 6 \<le> length password
          then Some \<lparr>uc_email = normalised, uc_username = username, uc_password = password\<rparr>
          else None)"

text \<open>\<^verbatim>\<open>UserLoginSchema\<close>: the email is an \<^verbatim>\<open>EmailStr\<close>, the password any string.\<close>

definition validate_UserLoginSchema ::
  "(string \<Rightarrow> string option) \<Rightarrow> string \<Rightarrow> string \<Rightarrow> (string \<times> string) option" where
  "validate_UserLoginSchema EmailStr email password =
     (case EmailStr email of None \<Rightarrow> None | Some normalised \<Rightarrow> Some (normalised, password))"

record UserRegisterResponseSchema =
  rr_id :: int
  rr_email :: string
  rr_username :: string
  rr_created_at :: int

record TokenSchema =
  access_token :: token
  refresh_token_of :: token
  token_type :: string

definition register ::
  "db \<Rightarrow> int \<Rightarrow> string \<Rightarrow> UserCreateSchema \<Rightarrow> error + (db \<times> UserRegisterResponseSchema)" where
  "register d now salt user_data =
     (if find (\<lambda>u. u_email u = uc_email user_data) (users d) \<noteq> None
      then Inl (HTTPException 409 Email_already_exists)
      else if find (\<lambda>u. u_username u = uc_username user_data) (users d) \<noteq> None
      then Inl (HTTPException 409 Username_already_exists)
      else
        (case hash_password salt (uc_password user_data) of
           Inl e \<Rightarrow> Inl e
         | Inr hashed \<Rightarrow>
             let new_user = \<lparr>u_id = fresh_id (map u_id (users d)),
                             u_email = uc_email user_data,
                             u_username = uc_username user_data, u_password = hashed,
                             u_role = user, u_created_at = now\<rparr>
             in Inr (d\<lparr>users := users d @ [new_user]\<rparr>,
                     \<lparr>rr_id = u_id new_user, rr_email = u_email new_user,
                      rr_username = u_username new_user,
                      rr_created_at = u_created_at new_user\<rparr>)))"

definition login ::
  "config \<Rightarrow> db \<Rightarrow> int \<Rightarrow> string \<Rightarrow> string \<Rightarrow> error + (db \<times> TokenSchema)" where
  "login cfg d now email password =
     (case find (\<lambda>u. u_email u = email) (users d) of
        None \<Rightarrow> Inl (HTTPException 401 Bad_email_or_password)
      | Some usr \<Rightarrow>
          (case verify_password password (u_password usr) of
             Inl e \<Rightarrow> Inl e
           | Inr False \<Rightarrow> Inl (HTTPException 401 Bad_email_or_password)
           | Inr True \<Rightarrow>
               let access = create_access_token cfg now (str_int (u_id usr)) (u_email usr);
                   refresh = create_refresh_token cfg now (str_int (u_id usr));
                   row = \<lparr>t_id = fresh_id (map t_id (refresh_tokens d)), t_user_id = u_id usr,
                          t_token = refresh, t_created_date = now\<rparr>
               in Inr (d\<lparr>refresh_tokens := refresh_tokens d @ [row]\<rparr>,
                       \<lparr>access_token = access, refresh_token_of = refresh,
                        token_type = ''Bearer''\<rparr>)))"

definition refresh_token :: "config \<Rightarrow> db \<Rightarrow> int \<Rightarrow> token \<Rightarrow> error + token" where
  "refresh_token cfg d now tok =
     (case decode_token cfg now tok of
        Inl e \<Rightarrow> Inl e
      | Inr payload \<Rightarrow>
          if c_type payload \<noteq> ''refresh'' then Inl (HTTPException 401 Wrong_token_type)
          else
            (case int_py (c_sub payload) of
               None \<Rightarrow> Inl ValueError
             | Some user_id \<Rightarrow>
                 (case find (\<lambda>t. t_token t = tok \<and> t_user_id t = user_id) (refresh_tokens d) of
                    None \<Rightarrow> Inl (HTTPException 401 Token_revoked)
                  | Some token_in_db \<Rightarrow>
                      (case find (\<lambda>u. u_id u = user_id) (users d) of
                         None \<Rightarrow> Inl (HTTPException 404 User_not_found)
                       | Some usr \<Rightarrow>
                           Inr (create_access_token cfg now (str_int (u_id usr))
                                  (u_email usr))))))"

text \<open>\<^verbatim>\<open>logout\<close> never raises: it deletes the first row holding the token, if any.\<close>

definition logout :: "db \<Rightarrow> token \<Rightarrow> db" where
  "logout d tok =
     (case find (\<lambda>t. t_token t = tok) (refresh_tokens d) of
        None \<Rightarrow> d
      | Some row \<Rightarrow> d\<lparr>refresh_tokens := delete_first (\<lambda>t. t_token t = tok) (refresh_tokens d)\<rparr>)"

definition get_current_user :: "config \<Rightarrow> db \<Rightarrow> int \<Rightarrow> token \<Rightarrow> error + User" where
  "get_current_user cfg d now credentials =
     (case decode_token cfg now credentials of
        Inl e \<Rightarrow> Inl e
      | Inr payload \<Rightarrow>
          if c_type payload \<noteq> ''access'' then Inl (HTTPException 401 Wrong_token_type)
          else
            (case int_py (c_sub payload) of
               None \<Rightarrow> Inl ValueError
             | Some user_id \<Rightarrow>
                 (case find (\<lambda>u. u_id u = user_id) (users d) of
                    None \<Rightarrow> Inl (HTTPException 404 User_not_found)
                  | Some usr \<Rightarrow> Inr usr)))"

text \<open>The two endpoints as the client calls them: validation, then the handler.\<close>

definition post_register ::
  "(string \<Rightarrow> string option) \<Rightarrow> db \<Rightarrow> int \<Rightarrow> string \<Rightarrow> string \<Rightarrow> string \<Rightarrow> string
     \<Rightarrow> error + (db \<times> UserRegisterResponseSchema)" where
  "post_register EmailStr d now salt email username password =
     (case validate_UserCreateSchema EmailStr email username password of
        None \<Rightarrow> Inl RequestValidationError
      | Some user_data \<Rightarrow> register d now salt user_data)"

definition post_login ::
  "(string \<Rightarrow> string option) \<Rightarrow> config \<Rightarrow> db \<Rightarrow> int \<Rightarrow> string \<Rightarrow> string
     \<Rightarrow> error + (db \<times> TokenSchema)" where
  "post_login EmailStr cfg d now email password =
     (case validate_UserLoginSchema EmailStr email password of
        None \<Rightarrow> Inl RequestValidationError
      | Some (normalised, pw) \<Rightarrow> login cfg d now normalised pw)"

section \<open>Profile updates (pdd\_app/api/user.py, pdd\_app/api/admin.py)\<close>

text \<open>
  The truth value of an optional string in \<^verbatim>\<open>if update_data.email:\<close>: absent and empty
  are both false.
\<close>

definition truthy :: "string option \<Rightarrow> bool" where
  "truthy v = (v \<noteq> None \<and> v \<noteq> Some [])"

record UserUpdateSchema =
  uu_email :: "string option"
  uu_username :: "string option"
  uu_password :: "string option"

record AdminUpdateUserSchema =
  au_email :: "string option"
  au_username :: "string option"
  au_password :: "string option"
  au_role :: "RoleChoices option"

definition unique_columns :: "User list \<Rightarrow> bool" where
  "unique_columns us = (distinct (map u_email us) \<and> distinct (map u_username us))"

text \<open>
  \<^verbatim>\<open>PUT /users/me\<close>. The handler assigns the new values to \<^verbatim>\<open>current_user\<close>, an object
  that \<^verbatim>\<open>get_current_user\<close> loaded in the database session of auth.py, then commits and
  refreshes in the session of user.py. That session holds no change, so the commit
  stores nothing, and \<^verbatim>\<open>db.refresh(current_user)\<close> raises \<^verbatim>\<open>InvalidRequestError\<close>, the
  object not being persistent in it; the session of auth.py is closed without a commit.
  The call therefore always ends with an exception and leaves the database as it was:
  the 400 for an empty update, the error of the bcrypt context for an oversized
  password, \<^verbatim>\<open>InvalidRequestError\<close> otherwise.
\<close>

definition update_current_user_profile :: "string \<Rightarrow> User \<Rightarrow> UserUpdateSchema \<Rightarrow> error" where
  "update_current_user_profile salt current_user update_data =
     (if \<not> (truthy (uu_email update_data) \<or> truthy (uu_username update_data)
             \<or> truthy (uu_password update_data))
      then HTTPException 400 At_least_one_field
      else if truthy (uu_password update_data)
      then (case ctx_hash user_pwd_context salt (the (uu_password update_data)) of
              Inl e \<Rightarrow> e
            | Inr hashed \<Rightarrow> InvalidRequestError)
      else InvalidRequestError)"

text \<open>
  \<^verbatim>\<open>PUT /admin/users/{user_id}\<close>. The user row is loaded in the handler's own session,
  so the commit stores the update; it fails with \<^verbatim>\<open>IntegrityError\<close> when the update
  breaks a unique column (email, username). After the commit the handler builds
  \<^verbatim>\<open>UserProfileSchema(..., stats=stats)\<close>, whose required field is named \<^verbatim>\<open>status\<close>, so
  pydantic raises \<^verbatim>\<open>ValidationError\<close>: the call never returns a profile. The result is
  the database after the call and the exception the call ends with.
\<close>

definition admin_update_user ::
  "db \<Rightarrow> string \<Rightarrow> User \<Rightarrow> int \<Rightarrow> AdminUpdateUserSchema \<Rightarrow> db \<times> error" where
  "admin_update_user d salt current_user user_id update_data =
     (if u_role current_user \<noteq> admin then (d, HTTPException 403 Only_admin)
      else
        (case find (\<lambda>u. u_id u = user_id) (users d) of
           None \<Rightarrow> (d, HTTPException 404 User_not_found)
         | Some usr \<Rightarrow>
             let u1 = (if truthy (au_email update_data)
                       then usr\<lparr>u_email := the (au_email update_data)\<rparr> else usr);
                 u2 = (if truthy (au_username update_data)
                       then u1\<lparr>u_username := the (au_username update_data)\<rparr> else u1)
             in
               (case (if truthy (au_password update_data)
                      then map_sum (\<lambda>e. e) (\<lambda>hashed. u2\<lparr>u_password := hashed\<rparr>)
                             (ctx_hash user_pwd_context salt (the (au_password update_data)))
                      else Inr u2) of
                  Inl e \<Rightarrow> (d, e)
                | Inr u3 \<Rightarrow>
                    let u4 = (case au_role update_data of
                                None \<Rightarrow> u3 | Some r \<Rightarrow> u3\<lparr>u_role := r\<rparr>);
                        users' = update_first (\<lambda>u. u_id u = user_id) (\<lambda>u. u4) (users d)
                    in if \<not> unique_columns users' then (d, IntegrityError)
                       else (d\<lparr>users := users'\<rparr>, ValidationError))))"

section \<open>Catalog deletion (pdd\_app/api/question.py, pdd\_app/api/category.py)\<close>

text \<open>
  \<^verbatim>\<open>db.delete(question)\<close> follows the relationships of \<^verbatim>\<open>Question\<close> declared with
  \<^verbatim>\<open>cascade='all, delete-orphan'\<close>: the options of the question and the exam answers
  that refer to it are deleted with it (so are its favorites, comments and likes, tables
  that this model does not hold). No exam row is touched. \<^verbatim>\<open>db.delete(category)\<close>
  deletes the questions of the category in the same way.
\<close>

definition check_admin_role :: "User \<Rightarrow> error option" where
  "check_admin_role current_user =
     (if u_role current_user \<noteq> admin then Some (HTTPException 403 Admin_required) else None)"

definition delete_question :: "db \<Rightarrow> User \<Rightarrow> int \<Rightarrow> error + (db \<times> int)" where
  "delete_question d current_user question_id =
     (case check_admin_role current_user of
        Some e \<Rightarrow> Inl e
      | None \<Rightarrow>
          (case find (\<lambda>q. q_id q = question_id) (questions d) of
             None \<Rightarrow> Inl (HTTPException 404 Question_not_found)
           | Some question \<Rightarrow>
               Inr (d\<lparr>questions := delete_first (\<lambda>q. q_id q = question_id) (questions d),
                      answer_options :=
                        filter (\<lambda>opt. o_question_id opt \<noteq> q_id question) (answer_options d),
                      exam_answers :=
                        filter (\<lambda>a. a_question_id a \<noteq> q_id question) (exam_answers d)\<rparr>,
                    question_id)))"

definition delete_category :: "db \<Rightarrow> User \<Rightarrow> int \<Rightarrow> error + (db \<times> int)" where
  "delete_category d current_user category_id =
     (case check_admin_role current_user of
        Some e \<Rightarrow> Inl e
      | None \<Rightarrow>
          (case find (\<lambda>c. cat_id c = category_id) (categories d) of
             None \<Rightarrow> Inl (HTTPException 404 Category_not_found)
           | Some category \<Rightarrow>
               let deleted = map q_id (filter (\<lambda>q. q_category_id q = cat_id category)
                                         (questions d))
               in Inr (d\<lparr>categories := delete_first (\<lambda>c. cat_id c = category_id)
                                         (categories d),
                         questions := filter (\<lambda>q. q_category_id q \<noteq> cat_id category)
                                        (questions d),
                         answer_options :=
                           filter (\<lambda>opt. o_question_id opt \<notin> set deleted) (answer_options d),
                         exam_answers :=
                           filter (\<lambda>a. a_question_id a \<notin> set deleted) (exam_answers d)\<rparr>,
                       category_id)))"

section \<open>Requests\<close>

text \<open>
  One request to the service: the endpoint with its validated body, the bearer token
  where the endpoint depends on \<^verbatim>\<open>get_current_user\<close>, and the random values (salt,
  sample draws) the handler consumes. \<open>handle\<close> gives \<open>Inl\<close> when the request raises
  before anything is committed, and otherwise the database after the request; the
  administrator's update commits before it raises, so its database is kept. A request
  that commits nothing leaves the database as it was (\<open>step\<close>). The endpoints that only
  read, those that write tables that this model does not hold, and those that create or
  edit a question or a category (they write the catalog tables only, and nothing is
  deleted with them) are not requests here.
\<close>

datatype request =
    Register string UserCreateSchema
  | Login string string
  | Refresh token
  | Logout token
  | UpdateMe token string UserUpdateSchema
  | AdminUpdate token string int AdminUpdateUserSchema
  | StartExam token "nat \<Rightarrow> nat"
  | AnswerQuestion token int int int
  | FinishExam token int
  | DeleteQuestion token int
  | DeleteCategory token int

text \<open>The requests that delete from the catalog.\<close>

fun is_delete :: "request \<Rightarrow> bool" where
  "is_delete (DeleteQuestion cred question_id) = True"
| "is_delete (DeleteCategory cred category_id) = True"
| "is_delete req = False"

definition as_user ::
  "config \<Rightarrow> db \<Rightarrow> int \<Rightarrow> token \<Rightarrow> (User \<Rightarrow> error + db \<times> 'r) \<Rightarrow> error + db" where
  "as_user cfg d now credentials handler =
     (case get_current_user cfg d now credentials of
        Inl e \<Rightarrow> Inl e
      | Inr current_user \<Rightarrow> map_sum (\<lambda>e. e) fst (handler current_user))"

fun handle :: "config \<Rightarrow> db \<Rightarrow> int \<Rightarrow> request \<Rightarrow> error + db" where
  "handle cfg d now (Register salt user_data) = map_sum (\<lambda>e. e) fst (register d now salt user_data)"
| "handle cfg d now (Login email password) = map_sum (\<lambda>e. e) fst (login cfg d now email password)"
| "handle cfg d now (Refresh tok) = map_sum (\<lambda>e. e) (\<lambda>t. d) (refresh_token cfg d now tok)"
| "handle cfg d now (Logout tok) = Inr (logout d tok)"
| "handle cfg d now (UpdateMe cred salt update_data) =
     as_user cfg d now cred
       (\<lambda>u. (Inl (update_current_user_profile salt u update_data) :: error + db \<times> unit))"
| "handle cfg d now (AdminUpdate cred salt user_id update_data) =
     as_user cfg d now cred (\<lambda>u. Inr (admin_update_user d salt u user_id update_data))"
| "handle cfg d now (StartExam cred rnd) = as_user cfg d now cred (\<lambda>u. start_exam d now rnd u)"
| "handle cfg d now (AnswerQuestion cred exam_id question_id option_id) =
     as_user cfg d now cred (\<lambda>u. answer_question d now u exam_id question_id option_id)"
| "handle cfg d now (FinishExam cred exam_id) =
     as_user cfg d now cred (\<lambda>u. finish_exam d now u exam_id)"
| "handle cfg d now (DeleteQuestion cred question_id) =
     as_user cfg d now cred (\<lambda>u. delete_question d u question_id)"
| "handle cfg d now (DeleteCategory cred category_id) =
     as_user cfg d now cred (\<lambda>u. delete_category d u category_id)"

definition step :: "config \<Rightarrow> db \<Rightarrow> int \<times> request \<Rightarrow> db" where
  "step cfg d r = (case handle cfg d (fst r) (snd r) of Inl e \<Rightarrow> d | Inr d' \<Rightarrow> d')"

definition run :: "config \<Rightarrow> db \<Rightarrow> (int \<times> request) list \<Rightarrow> db" where
  "run cfg d rs = foldl (step cfg) d rs"

section \<open>Concrete states used as inputs\<close>

definition alice :: User where
  "alice = \<lparr>u_id = 1, u_email = ''alice@example.com'', u_username = ''alice'',
            u_password = PwHash argon2 ''s1'' ''secret1'', u_role = user, u_created_at = 0\<rparr>"

definition bob :: User where
  "bob = \<lparr>u_id = 2, u_email = ''bob@example.com'', u_username = ''bobby'',
          u_password = PwHash argon2 ''s2'' ''secret2'', u_role = user, u_created_at = 0\<rparr>"

definition root :: User where
  "root = \<lparr>u_id = 3, u_email = ''root@example.com'', u_username = ''root'',
           u_password = PwHash argon2 ''s3'' ''secret3'', u_role = admin, u_created_at = 0\<rparr>"

definition exam1 :: "int \<Rightarrow> ExamStatusChoices \<Rightarrow> Exam" where
  "exam1 score st = \<lparr>e_id = 1, e_user_id = 1, e_score = score, e_status = st,
                     e_started_at = 0, e_finished_at = None\<rparr>"

text \<open>Answers of exam 1 to the questions \<open>1..n\<close>, the first \<open>k\<close> of them correct.\<close>

definition answers_upto :: "int \<Rightarrow> int \<Rightarrow> ExamAnswer list" where
  "answers_upto n k =
     map (\<lambda>i. \<lparr>a_id = i, a_exam_id = 1, a_question_id = i, a_selected_option_id = 2 * i,
               a_is_correct = (i \<le> k), a_answered_at = 0\<rparr>) [1..n]"

text \<open>A catalog of the questions \<open>1..n\<close>; question \<open>i\<close> has the correct option \<open>2 * i\<close>
  and the wrong option \<open>2 * i + 1\<close>.\<close>

definition catalog_questions :: "int \<Rightarrow> Question list" where
  "catalog_questions n =
     map (\<lambda>i. \<lparr>q_id = i, q_text = ''q'', q_image = None, q_explanation = ''e'',
               q_category_id = 1, q_created_at = 0\<rparr>) [1..n]"

definition catalog_options :: "int \<Rightarrow> AnswerOption list" where
  "catalog_options n =
     concat (map (\<lambda>i. [\<lparr>o_id = 2 * i, o_question_id = i, o_text = ''yes'', o_is_correct = True\<rparr>,
                       \<lparr>o_id = 2 * i + 1, o_question_id = i, o_text = ''no'',
                        o_is_correct = False\<rparr>]) [1..n])"

text \<open>Alice's exam 1 with score \<open>k\<close> and status \<open>st\<close>, \<open>n\<close> answers recorded, over a
  catalog of \<open>m\<close> questions, all of category 1.\<close>

definition exam_db :: "int \<Rightarrow> int \<Rightarrow> int \<Rightarrow> ExamStatusChoices \<Rightarrow> db" where
  "exam_db m n k st =
     \<lparr>users = [alice, bob, root], refresh_tokens = [], questions = catalog_questions m,
      answer_options = catalog_options m, exams = [exam1 k st],
      exam_answers = answers_upto n k,
      categories = [\<lparr>cat_id = 1, category_name = ''signs''\<rparr>]\<rparr>"

definition cfg0 :: config where
  "cfg0 = \<lparr>SECRET_KEY = ''k0'', ACCESS_TOKEN_EXPIRE_MINUTES = 30,
           REFRESH_TOKEN_EXPIRE_DAYS = 7\<rparr>"

definition users_db :: db where
  "users_db = empty_db\<lparr>users := [alice, bob, root]\<rparr>"

definition new_password_by_admin :: AdminUpdateUserSchema where
  "new_password_by_admin =
     \<lparr>au_email = None, au_username = None, au_password = Some ''newsecret'', au_role = None\<rparr>"

definition new_password_by_user :: UserUpdateSchema where
  "new_password_by_user =
     \<lparr>uu_email = None, uu_username = None, uu_password = Some ''newsecret''\<rparr>"

definition carol_data :: UserCreateSchema where
  "carol_data = \<lparr>uc_email = ''carol@example.com'', uc_username = ''carol'',
                 uc_password = ''newsecret''\<rparr>"

text \<open>
  A stand-in for \<^verbatim>\<open>EmailStr\<close> used at concrete inputs: it accepts a string that holds an
  at sign and returns it unchanged (the addresses used here are in normal form).
\<close>

definition email_str0 :: "string \<Rightarrow> string option" where
  "email_str0 s = (if CHR ''@'' \<in> set s then Some s else None)"

text \<open>A password of 4097 characters.\<close>

definition long_password :: string where
  "long_password = replicate 4097 CHR ''a''"

text \<open>Alice logs in twice within the same second (time 100).\<close>

definition alice_token :: token where
  "alice_token = create_refresh_token cfg0 100 ''1''"

definition after_two_logins :: db where
  "after_two_logins =
     fst (projr (login cfg0 (fst (projr (login cfg0 users_db 100 ''alice@example.com''
        ''secret1''))) 100 ''alice@example.com'' ''secret1''))"

text \<open>A fixed sequence of raw random draws.\<close>

definition draws :: "nat \<Rightarrow> nat" where
  "draws i = 7 * i + 3"

section \<open>Invariants of the exam tables\<close>

text \<open>At most one exam in progress for every user that owns an exam.\<close>

definition one_in_progress :: "db \<Rightarrow> bool" where
  "one_in_progress d =
     (\<forall>e\<in>set (exams d).
        length (filter (\<lambda>x. e_user_id x = e_user_id e \<and> e_status x = in_progress) (exams d))
          \<le> 1)"

text \<open>At most one recorded answer for every pair of an exam and a question.\<close>

definition one_answer_per_question :: "db \<Rightarrow> bool" where
  "one_answer_per_question d =
     distinct (map (\<lambda>a. (a_exam_id a, a_question_id a)) (exam_answers d))"


text \<open>The access token of alice, issued at time 90.\<close>

definition alice_access :: token where
  "alice_access = create_access_token cfg0 90 ''1'' ''alice@example.com''"

definition bob_access :: token where
  "bob_access = create_access_token cfg0 90 ''2'' ''bob@example.com''"


text \<open>Alice has answered question 1 of her exam with option 2.\<close>

definition after_first_answer :: db where
  "after_first_answer =
     fst (projr (answer_question (exam_db 20 0 0 in_progress) 100 alice 1 1 2))"

section \<open>Lemmas on the table operations\<close>

lemma find_update_first:
  "find P xs = Some x \<Longrightarrow> P (f x) \<Longrightarrow> find P (update_first P f xs) = Some (f x)"
  by (induction xs) (auto split: if_splits)

lemma length_update_first [simp]: "length (update_first P f xs) = length xs"
  by (induction xs) auto

lemma find_Some_mem: "find P xs = Some x \<Longrightarrow> x \<in> set xs \<and> P x"
  by (induction xs) (auto split: if_splits)

lemma finish_exam_unfold:
  assumes "find (\<lambda>e. e_id e = exam_id) (exams d) = Some exam"
    and "e_user_id exam = u_id current_user"
    and "e_status exam = in_progress"
  shows "finish_exam d now current_user exam_id =
     (if length (exam_answers_of d exam_id) < 20
      then Inl (HTTPException 400 (Answered_only (length (exam_answers_of d exam_id)) 20))
      else Inr (d\<lparr>exams := update_first (\<lambda>e. e_id e = exam_id)
                   (\<lambda>e. exam\<lparr>e_status := (if 18 \<le> e_score exam then completed else failed),
                              e_finished_at := Some now\<rparr>) (exams d)\<rparr>,
                \<lparr>fr_exam_id = exam_id, fr_score = e_score exam,
                 fr_total_questions = length (exam_answers_of d exam_id),
                 fr_passed = (18 \<le> e_score exam), fr_finished_at = Some now\<rparr>))"
proof -
  have id: "e_id exam = exam_id"
    using find_Some_mem [OF assms(1)] by simp
  show ?thesis
    using assms id
    by (simp add: finish_exam_def Let_def EXAM_QUESTIONS_COUNT_def PASSING_SCORE_def)
qed

lemma exam_db_find:
  "find (\<lambda>e. e_id e = 1) (exams (exam_db m n k st)) = Some (exam1 k st)"
  by (simp add: exam_db_def exam1_def)

lemma exam1_sel [simp]:
  "e_user_id (exam1 k st) = u_id alice" "e_status (exam1 k st) = st"
  "e_score (exam1 k st) = k" "e_id (exam1 k st) = 1"
  by (simp_all add: exam1_def alice_def)

lemma exam_db_answers_length:
  "length (exam_answers_of (exam_db m n k st) 1) = nat n"
  by (simp add: exam_answers_of_def exam_db_def answers_upto_def)

section \<open>Finishing an exam\<close>

text \<open>
  C1 (as amended). For an exam session owned by the calling user and in status
  \<open>in_progress\<close>, \<open>finish\<close> succeeds if and only if at least \<open>EXAM_QUESTIONS_COUNT\<close> (20)
  answers are recorded. With fewer it fails with 400 and the detail that only that many
  of 20 were answered (InvalidState), so with 19 answers it fails. With 20 or more it
  returns \<open>passed\<close> exactly when the score is at least \<open>PASSING_SCORE\<close> (18), and the
  stored session gets status \<open>completed\<close> when passed and \<open>failed\<close> otherwise, the
  finish time stamped and the score kept: score 18 passes, score 17 fails.
\<close>

theorem finish_exam_at_least_twenty:
  assumes "find (\<lambda>e. e_id e = exam_id) (exams d) = Some exam"
    and "e_user_id exam = u_id current_user"
    and "e_status exam = in_progress"
  shows "(isl (finish_exam d now current_user exam_id)
            \<longleftrightarrow> length (exam_answers_of d exam_id) < 20)
       \<and> (length (exam_answers_of d exam_id) < 20 \<longrightarrow>
            finish_exam d now current_user exam_id
              = Inl (HTTPException 400 (Answered_only (length (exam_answers_of d exam_id)) 20)))
       \<and> (20 \<le> length (exam_answers_of d exam_id) \<longrightarrow>
            fr_passed (snd (projr (finish_exam d now current_user exam_id)))
              = (18 \<le> e_score exam)
          \<and> fr_score (snd (projr (finish_exam d now current_user exam_id))) = e_score exam
          \<and> fr_total_questions (snd (projr (finish_exam d now current_user exam_id)))
              = length (exam_answers_of d exam_id)
          \<and> find (\<lambda>e. e_id e = exam_id)
                 (exams (fst (projr (finish_exam d now current_user exam_id))))
              = Some (exam\<lparr>e_status := (if 18 \<le> e_score exam then completed else failed),
                           e_finished_at := Some now\<rparr>))"
proof -
  have id: "e_id exam = exam_id"
    using find_Some_mem [OF assms(1)] by simp
  show ?thesis
    using assms(1) id
    by (simp add: finish_exam_unfold [OF assms] find_update_first)
qed

theorem finish_exam_at_least_twenty_witness:
  "finish_exam (exam_db 20 19 18 in_progress) 100 alice 1
     = Inl (HTTPException 400 (Answered_only 19 20))
   \<and> fr_passed (snd (projr (finish_exam (exam_db 20 20 18 in_progress) 100 alice 1)))
   \<and> e_status (the (find (\<lambda>e. e_id e = 1)
        (exams (fst (projr (finish_exam (exam_db 20 20 18 in_progress) 100 alice 1))))))
       = completed
   \<and> \<not> fr_passed (snd (projr (finish_exam (exam_db 20 20 17 in_progress) 100 alice 1)))
   \<and> e_status (the (find (\<lambda>e. e_id e = 1)
        (exams (fst (projr (finish_exam (exam_db 20 20 17 in_progress) 100 alice 1))))))
       = failed"
  using finish_exam_at_least_twenty [OF exam_db_find, of 18 in_progress alice 20 19 100]
    finish_exam_at_least_twenty [OF exam_db_find, of 18 in_progress alice 20 20 100]
    finish_exam_at_least_twenty [OF exam_db_find, of 17 in_progress alice 20 20 100]
  by (simp add: exam_db_answers_length)

text \<open>
  The claim as first stated, with "exactly 20", fails: a session with 21 recorded
  answers is finished successfully.
\<close>

theorem finish_exam_exactly_twenty_counterexample:
  "length (exam_answers_of (exam_db 21 21 18 in_progress) 1) = 21
   \<and> \<not> isl (finish_exam (exam_db 21 21 18 in_progress) 100 alice 1)
   \<and> fr_passed (snd (projr (finish_exam (exam_db 21 21 18 in_progress) 100 alice 1)))"
  using finish_exam_unfold [OF exam_db_find, of 18 in_progress alice 21 21 100]
  by (simp add: exam_db_answers_length)

section \<open>Decimal strings round-trip\<close>

lemma of_char_digit_char: "d < 10 \<Longrightarrow> (of_char (digit_char d) :: nat) = 48 + d"
  by (simp add: digit_char_def)

lemma digit_val_digit_char: "d < 10 \<Longrightarrow> digit_val (digit_char d) = d"
  by (simp add: digit_val_def of_char_digit_char)

lemma is_digit_digit_char: "d < 10 \<Longrightarrow> is_digit (digit_char d)"
  by (simp add: is_digit_def of_char_digit_char)

lemma not_is_digit_minus: "\<not> is_digit CHR ''-''"
  by (simp add: is_digit_def)

lemma not_is_digit_plus: "\<not> is_digit CHR ''+''"
  by (simp add: is_digit_def)

lemma str_nat_digits: "list_all is_digit (str_nat n) \<and> str_nat n \<noteq> []"
proof (induction n rule: str_nat.induct)
  case (1 n)
  show ?case
  proof (cases "n < 10")
    case True
    then show ?thesis by (simp add: str_nat.simps [of n] is_digit_digit_char)
  next
    case False
    with 1 show ?thesis by (simp add: str_nat.simps [of n] is_digit_digit_char)
  qed
qed

lemma nat_of_digits_snoc: "nat_of_digits (xs @ [c]) = 10 * nat_of_digits xs + digit_val c"
  by (simp add: nat_of_digits_def)

lemma nat_of_digits_str_nat: "nat_of_digits (str_nat n) = n"
proof (induction n rule: str_nat.induct)
  case (1 n)
  show ?case
  proof (cases "n < 10")
    case True
    then show ?thesis
      by (simp add: str_nat.simps [of n] nat_of_digits_def digit_val_digit_char)
  next
    case False
    with 1 show ?thesis
      by (simp add: str_nat.simps [of n] nat_of_digits_snoc digit_val_digit_char)
  qed
qed

lemma int_py_str_int: "int_py (str_int i) = Some i"
proof (cases "i < 0")
  case True
  then show ?thesis
    using str_nat_digits [of "nat (- i)"]
    by (simp add: int_py_def str_int_def nat_of_digits_str_nat)
next
  case False
  obtain c r where cr: "str_nat (nat i) = c # r"
    using str_nat_digits [of "nat i"] by (cases "str_nat (nat i)") auto
  have "is_digit c" using str_nat_digits [of "nat i"] cr by simp
  then have "c \<noteq> CHR ''-''" and "c \<noteq> CHR ''+''"
    using not_is_digit_minus not_is_digit_plus by auto
  then show ?thesis
    using False str_nat_digits [of "nat i"] nat_of_digits_str_nat [of "nat i"] cr
    by (simp add: int_py_def str_int_def)
qed

lemma inj_str_int: "inj str_int"
  by (rule inj_on_inverseI [where g = "\<lambda>s. the (int_py s)"]) (simp add: int_py_str_int)

section \<open>Logout and refresh\<close>

lemma str_int_1: "str_int 1 = ''1''"
  by code_simp

lemma int_py_1: "int_py ''1'' = Some 1"
  using int_py_str_int [of 1] by (simp add: str_int_1)

lemma login_alice:
  "find (\<lambda>u. u_email u = ''alice@example.com'') (users d) = Some alice \<Longrightarrow>
   login cfg0 d 100 ''alice@example.com'' ''secret1''
     = Inr (d\<lparr>refresh_tokens := refresh_tokens d @
              [\<lparr>t_id = fresh_id (map t_id (refresh_tokens d)), t_user_id = 1,
                t_token = alice_token, t_created_date = 100\<rparr>]\<rparr>,
            \<lparr>access_token = create_access_token cfg0 100 ''1'' ''alice@example.com'',
             refresh_token_of = alice_token, token_type = ''Bearer''\<rparr>)"
  by (simp add: login_def verify_password_def ctx_verify_def auth_pwd_context_def alice_def
      Let_def str_int_1 alice_token_def MAX_PASSWORD_SIZE_def)

lemma after_two_logins_eq:
  "after_two_logins = users_db\<lparr>refresh_tokens :=
      [\<lparr>t_id = 1, t_user_id = 1, t_token = alice_token, t_created_date = 100\<rparr>,
       \<lparr>t_id = 2, t_user_id = 1, t_token = alice_token, t_created_date = 100\<rparr>]\<rparr>"
proof -
  have f: "find (\<lambda>u. u_email u = ''alice@example.com'') (users users_db) = Some alice"
    by (simp add: users_db_def empty_db_def alice_def)
  show ?thesis
    unfolding after_two_logins_def
    by (simp add: login_alice f) (simp add: users_db_def empty_db_def fresh_id_def)
qed

text \<open>
  C5. The claim: after \<open>logout\<close> with a refresh token that \<open>login\<close> issued, \<open>refresh\<close>
  with the same token fails with 401. The code deletes only the first row that holds
  the token. Two logins of one user within the same second issue the same token and
  store it in two rows; after one \<open>logout\<close> the second row still holds it, and \<open>refresh\<close>
  returns a new access token.
\<close>

theorem refresh_after_logout_duplicate_rows:
  "refresh_token_of (snd (projr (login cfg0 users_db 100 ''alice@example.com'' ''secret1'')))
     = alice_token
   \<and> refresh_token cfg0 (logout after_two_logins alice_token) 101 alice_token
     = Inr (create_access_token cfg0 101 ''1'' ''alice@example.com'')"
proof -
  have f: "find (\<lambda>u. u_email u = ''alice@example.com'') (users users_db) = Some alice"
    by (simp add: users_db_def empty_db_def alice_def)
  have l: "logout after_two_logins alice_token = users_db\<lparr>refresh_tokens :=
      [\<lparr>t_id = 2, t_user_id = 1, t_token = alice_token, t_created_date = 100\<rparr>]\<rparr>"
    by (simp add: after_two_logins_eq logout_def)
  have r: "refresh_token cfg0 (logout after_two_logins alice_token) 101 alice_token
     = Inr (create_access_token cfg0 101 ''1'' ''alice@example.com'')"
    unfolding l
    by (simp add: refresh_token_def decode_token_def alice_token_def create_refresh_token_def
        cfg0_def int_py_1 users_db_def empty_db_def alice_def bob_def root_def str_int_1)
  show ?thesis using r by (simp add: login_alice f)
qed

section \<open>Register, then log in\<close>

lemma find_snoc_fresh:
  "\<forall>x\<in>set xs. \<not> P x \<Longrightarrow> find P (xs @ [y]) = (if P y then Some y else None)"
  by (induction xs) auto

lemma register_unfold:
  assumes "\<forall>u\<in>set (users d). u_email u \<noteq> uc_email user_data"
    and "\<forall>u\<in>set (users d). u_username u \<noteq> uc_username user_data"
  shows "register d now salt user_data =
     (if 4096 < length (uc_password user_data) then Inl PasswordSizeError
      else Inr (d\<lparr>users := users d @
               [\<lparr>u_id = fresh_id (map u_id (users d)), u_email = uc_email user_data,
                 u_username = uc_username user_data,
                 u_password = PwHash argon2 salt (uc_password user_data),
                 u_role = user, u_created_at = now\<rparr>]\<rparr>,
          \<lparr>rr_id = fresh_id (map u_id (users d)), rr_email = uc_email user_data,
           rr_username = uc_username user_data, rr_created_at = now\<rparr>))"
proof -
  have e: "find (\<lambda>u. u_email u = uc_email user_data) (users d) = None"
    using assms(1) by (simp add: find_None_iff)
  have n: "find (\<lambda>u. u_username u = uc_username user_data) (users d) = None"
    using assms(2) by (simp add: find_None_iff)
  show ?thesis
    by (simp add: register_def e n Let_def hash_password_def ctx_hash_def auth_pwd_context_def
        MAX_PASSWORD_SIZE_def)
qed

lemma login_new_user:
  assumes "\<forall>u\<in>set (users d). u_email u \<noteq> email"
  shows "login cfg
           (d\<lparr>users := users d @
               [\<lparr>u_id = uid, u_email = email, u_username = username,
                 u_password = PwHash argon2 salt password, u_role = r, u_created_at = t\<rparr>]\<rparr>)
           now' email pw =
     (if 4096 < length pw then Inl PasswordSizeError
      else if pw \<noteq> password then Inl (HTTPException 401 Bad_email_or_password)
      else Inr (d\<lparr>users := users d @
                   [\<lparr>u_id = uid, u_email = email, u_username = username,
                     u_password = PwHash argon2 salt password, u_role = r,
                     u_created_at = t\<rparr>],
                  refresh_tokens := refresh_tokens d @
                   [\<lparr>t_id = fresh_id (map t_id (refresh_tokens d)), t_user_id = uid,
                     t_token = create_refresh_token cfg now' (str_int uid),
                     t_created_date = now'\<rparr>]\<rparr>,
                \<lparr>access_token = create_access_token cfg now' (str_int uid) email,
                 refresh_token_of = create_refresh_token cfg now' (str_int uid),
                 token_type = ''Bearer''\<rparr>))"
  using assms
  by (auto simp: login_def find_snoc_fresh verify_password_def ctx_verify_def
      auth_pwd_context_def Let_def MAX_PASSWORD_SIZE_def)

text \<open>
  C4 (as amended). For every raw email that \<open>EmailStr\<close> accepts, every username of 3 to
  50 characters and every password of 6 to 4096 characters, the normalised email and the
  username not registered yet: \<open>register\<close> stores the user with the argon2 hash of the
  password and returns its id, email, username and creation time; \<open>login\<close> with the
  same email and password on the resulting database stores a refresh token for the user
  and returns the access token, the refresh token and the label Bearer; \<open>login\<close> with
  any other password of at most 4096 characters for that email fails with 401
  (Unauthorized), and with a longer one it ends with the size error of passlib.
\<close>

theorem register_then_login:
  assumes "EmailStr raw_email = Some email"
    and "3 \<le> length username" and "length username \<le> 50"
    and "6 \<le> length password" and "length password \<le> 4096"
    and "\<forall>u\<in>set (users d). u_email u \<noteq> email"
    and "\<forall>u\<in>set (users d). u_username u \<noteq> username"
  shows "post_register EmailStr d now salt raw_email username password
           = Inr (d\<lparr>users := users d @
                     [\<lparr>u_id = fresh_id (map u_id (users d)), u_email = email,
                       u_username = username, u_password = PwHash argon2 salt password,
                       u_role = user, u_created_at = now\<rparr>]\<rparr>,
                  \<lparr>rr_id = fresh_id (map u_id (users d)), rr_email = email,
                   rr_username = username, rr_created_at = now\<rparr>)
       \<and> post_login EmailStr cfg
            (fst (projr (post_register EmailStr d now salt raw_email username password)))
            now' raw_email password
           = Inr ((fst (projr (post_register EmailStr d now salt raw_email username password)))
                    \<lparr>refresh_tokens := refresh_tokens d @
                       [\<lparr>t_id = fresh_id (map t_id (refresh_tokens d)),
                         t_user_id = fresh_id (map u_id (users d)),
                         t_token = create_refresh_token cfg now'
                                     (str_int (fresh_id (map u_id (users d)))),
                         t_created_date = now'\<rparr>]\<rparr>,
                  \<lparr>access_token = create_access_token cfg now'
                                     (str_int (fresh_id (map u_id (users d)))) email,
                   refresh_token_of = create_refresh_token cfg now'
                                        (str_int (fresh_id (map u_id (users d)))),
                   token_type = ''Bearer''\<rparr>)
       \<and> (\<forall>wrong. wrong \<noteq> password \<longrightarrow>
            post_login EmailStr cfg
              (fst (projr (post_register EmailStr d now salt raw_email username password)))
              now' raw_email wrong
              = Inl (if length wrong \<le> 4096 then HTTPException 401 Bad_email_or_password
                     else PasswordSizeError))"
proof -
  let ?data = "\<lparr>uc_email = email, uc_username = username, uc_password = password\<rparr>"
  have v: "validate_UserCreateSchema EmailStr raw_email username password = Some ?data"
    using assms(1-4) by (simp add: validate_UserCreateSchema_def)
  have r: "post_register EmailStr d now salt raw_email username password
           = Inr (d\<lparr>users := users d @
                     [\<lparr>u_id = fresh_id (map u_id (users d)), u_email = email,
                       u_username = username, u_password = PwHash argon2 salt password,
                       u_role = user, u_created_at = now\<rparr>]\<rparr>,
                  \<lparr>rr_id = fresh_id (map u_id (users d)), rr_email = email,
                   rr_username = username, rr_created_at = now\<rparr>)"
    using assms(5-7) register_unfold [of d ?data now salt]
    by (simp add: post_register_def v)
  have l: "\<And>pw. post_login EmailStr cfg
             (d\<lparr>users := users d @
                     [\<lparr>u_id = fresh_id (map u_id (users d)), u_email = email,
                       u_username = username, u_password = PwHash argon2 salt password,
                       u_role = user, u_created_at = now\<rparr>]\<rparr>) now' raw_email pw
           = login cfg
             (d\<lparr>users := users d @
                     [\<lparr>u_id = fresh_id (map u_id (users d)), u_email = email,
                       u_username = username, u_password = PwHash argon2 salt password,
                       u_role = user, u_created_at = now\<rparr>]\<rparr>) now' email pw"
    using assms(1) by (simp add: post_login_def validate_UserLoginSchema_def)
  show ?thesis
    using assms(5) by (simp add: r l login_new_user [OF assms(6)])
qed

lemma carol_fresh:
  "email_str0 ''carol@example.com'' = Some ''carol@example.com''"
  "\<forall>u\<in>set (users users_db). u_email u \<noteq> ''carol@example.com''"
  "\<forall>u\<in>set (users users_db). u_username u \<noteq> ''carol''"
  by (simp_all add: email_str0_def users_db_def empty_db_def alice_def bob_def root_def)

lemma users_db_fresh_id: "fresh_id (map u_id (users users_db)) = 4"
  by (simp add: users_db_def empty_db_def alice_def bob_def root_def fresh_id_def)

lemma str_int_4: "str_int 4 = ''4''"
  by code_simp

theorem register_then_login_witness:
  "rr_id (snd (projr (post_register email_str0 users_db 50 ''s9'' ''carol@example.com''
      ''carol'' ''newsecret''))) = 4
   \<and> access_token (snd (projr (post_login email_str0 cfg0
        (fst (projr (post_register email_str0 users_db 50 ''s9'' ''carol@example.com''
           ''carol'' ''newsecret''))) 100 ''carol@example.com'' ''newsecret'')))
       = create_access_token cfg0 100 ''4'' ''carol@example.com''
   \<and> \<not> isl (post_login email_str0 cfg0
        (fst (projr (post_register email_str0 users_db 50 ''s9'' ''carol@example.com''
           ''carol'' ''newsecret''))) 100 ''carol@example.com'' ''newsecret'')
   \<and> post_login email_str0 cfg0
        (fst (projr (post_register email_str0 users_db 50 ''s9'' ''carol@example.com''
           ''carol'' ''newsecret''))) 100 ''carol@example.com'' ''oldsecret''
       = Inl (HTTPException 401 Bad_email_or_password)"
proof -
  have p: "3 \<le> length ''carol''" "length ''carol'' \<le> 50"
    "6 \<le> length ''newsecret''" "length ''newsecret'' \<le> 4096"
    by simp_all
  note t = register_then_login [where EmailStr = email_str0
      and raw_email = "''carol@example.com''" and email = "''carol@example.com''"
      and username = "''carol''" and password = "''newsecret''" and d = users_db
      and now = 50 and salt = "''s9''" and cfg = cfg0 and now' = 100,
      OF carol_fresh(1) p carol_fresh(2,3)]
  have a: "rr_id (snd (projr (post_register email_str0 users_db 50 ''s9'' ''carol@example.com''
      ''carol'' ''newsecret''))) = 4"
    using t [THEN conjunct1] by (simp add: users_db_fresh_id)
  have b: "access_token (snd (projr (post_login email_str0 cfg0
        (fst (projr (post_register email_str0 users_db 50 ''s9'' ''carol@example.com''
           ''carol'' ''newsecret''))) 100 ''carol@example.com'' ''newsecret'')))
       = create_access_token cfg0 100 ''4'' ''carol@example.com''"
    and c: "\<not> isl (post_login email_str0 cfg0
        (fst (projr (post_register email_str0 users_db 50 ''s9'' ''carol@example.com''
           ''carol'' ''newsecret''))) 100 ''carol@example.com'' ''newsecret'')"
    using t [THEN conjunct2, THEN conjunct1] by (simp_all add: users_db_fresh_id str_int_4)
  have d: "post_login email_str0 cfg0
        (fst (projr (post_register email_str0 users_db 50 ''s9'' ''carol@example.com''
           ''carol'' ''newsecret''))) 100 ''carol@example.com'' ''oldsecret''
       = Inl (HTTPException 401 Bad_email_or_password)"
    using t [THEN conjunct2, THEN conjunct2, rule_format, of "''oldsecret''"] by simp
  show ?thesis using a b c d by blast
qed

text \<open>
  The claim as first stated covers every valid password, and \<open>UserCreateSchema\<close> sets no
  upper bound on its length: with a password of 4097 characters the body is valid and
  \<open>register\<close> ends with the size error of passlib; and a wrong password of that length
  at \<open>login\<close> ends with the same error, not with 401.
\<close>

theorem register_then_login_counterexample:
  "validate_UserCreateSchema email_str0 ''carol@example.com'' ''carol'' long_password
     = Some \<lparr>uc_email = ''carol@example.com'', uc_username = ''carol'',
             uc_password = long_password\<rparr>
   \<and> post_register email_str0 users_db 50 ''s9'' ''carol@example.com'' ''carol'' long_password
       = Inl PasswordSizeError
   \<and> \<not> isl (post_register email_str0 users_db 50 ''s9'' ''carol@example.com'' ''carol''
        ''newsecret'')
   \<and> post_login email_str0 cfg0
        (fst (projr (post_register email_str0 users_db 50 ''s9'' ''carol@example.com''
           ''carol'' ''newsecret''))) 100 ''carol@example.com'' long_password
       = Inl PasswordSizeError"
proof -
  have len: "length long_password = 4097" by (simp add: long_password_def)
  have v: "\<And>pw. 6 \<le> length pw \<Longrightarrow>
      validate_UserCreateSchema email_str0 ''carol@example.com'' ''carol'' pw
        = Some \<lparr>uc_email = ''carol@example.com'', uc_username = ''carol'', uc_password = pw\<rparr>"
    by (simp add: validate_UserCreateSchema_def carol_fresh(1))
  have r: "\<And>pw. 6 \<le> length pw \<Longrightarrow>
      post_register email_str0 users_db 50 ''s9'' ''carol@example.com'' ''carol'' pw
        = register users_db 50 ''s9''
            \<lparr>uc_email = ''carol@example.com'', uc_username = ''carol'', uc_password = pw\<rparr>"
    by (simp add: post_register_def v)
  have u: "\<And>pw. register users_db 50 ''s9''
            \<lparr>uc_email = ''carol@example.com'', uc_username = ''carol'', uc_password = pw\<rparr>
     = (if 4096 < length pw then Inl PasswordSizeError
      else Inr (users_db\<lparr>users := users users_db @
               [\<lparr>u_id = 4, u_email = ''carol@example.com'',
                 u_username = ''carol'',
                 u_password = PwHash argon2 ''s9'' pw,
                 u_role = user, u_created_at = 50\<rparr>]\<rparr>,
          \<lparr>rr_id = 4, rr_email = ''carol@example.com'',
           rr_username = ''carol'', rr_created_at = 50\<rparr>))"
    using register_unfold [of users_db
        "\<lparr>uc_email = ''carol@example.com'', uc_username = ''carol'', uc_password = pw\<rparr>"
        50 "''s9''" for pw] carol_fresh(2,3)
    by (simp add: users_db_fresh_id)
  have l: "post_login email_str0 cfg0
        (users_db\<lparr>users := users users_db @
               [\<lparr>u_id = 4, u_email = ''carol@example.com'',
                 u_username = ''carol'',
                 u_password = PwHash argon2 ''s9'' ''newsecret'',
                 u_role = user, u_created_at = 50\<rparr>]\<rparr>) 100 ''carol@example.com''
        long_password = Inl PasswordSizeError"
    by (simp add: post_login_def validate_UserLoginSchema_def carol_fresh(1)
        login_new_user [OF carol_fresh(2)] len)
  show ?thesis
    by (simp add: v r u len l)
qed

section \<open>Password hashing schemes\<close>

text \<open>
  C9. The claim: every credential write uses one hashing scheme, so a password stored by
  any of them verifies under \<open>login\<close>. In the code \<open>register\<close> hashes with the argon2
  context of auth.py, while the update by an administrator hashes with the bcrypt
  context of admin.py and commits that hash; \<open>login\<close> verifies with the argon2 context,
  which does not know a bcrypt hash and raises instead of returning a token. A password
  stored by \<open>register\<close> does log in: \<open>login\<close> stores a refresh token and returns the
  tokens. (The response of the update by an administrator fails validation after the
  commit, so the caller sees an error although the hash is stored. The profile update of
  the user hashes with the bcrypt context of user.py too, but stores nothing.)
\<close>

theorem password_scheme_mismatch:
  "admin_update_user users_db ''s9'' root 1 new_password_by_admin
     = (users_db\<lparr>users := [alice\<lparr>u_password := PwHash bcrypt ''s9'' ''newsecret''\<rparr>, bob,
                            root]\<rparr>, ValidationError)
   \<and> login cfg0 (fst (admin_update_user users_db ''s9'' root 1 new_password_by_admin))
        100 ''alice@example.com'' ''newsecret'' = Inl UnknownHashError
   \<and> register users_db 50 ''s9'' carol_data
       = Inr (users_db\<lparr>users := [alice, bob, root,
                 \<lparr>u_id = 4, u_email = ''carol@example.com'', u_username = ''carol'',
                  u_password = PwHash argon2 ''s9'' ''newsecret'', u_role = user,
                  u_created_at = 50\<rparr>]\<rparr>,
              \<lparr>rr_id = 4, rr_email = ''carol@example.com'', rr_username = ''carol'',
               rr_created_at = 50\<rparr>)
   \<and> login cfg0 (fst (projr (register users_db 50 ''s9'' carol_data)))
        100 ''carol@example.com'' ''newsecret''
       = Inr ((fst (projr (register users_db 50 ''s9'' carol_data)))
                \<lparr>refresh_tokens :=
                   [\<lparr>t_id = 1, t_user_id = 4,
                     t_token = create_refresh_token cfg0 100 ''4'', t_created_date = 100\<rparr>]\<rparr>,
              \<lparr>access_token = create_access_token cfg0 100 ''4'' ''carol@example.com'',
               refresh_token_of = create_refresh_token cfg0 100 ''4'',
               token_type = ''Bearer''\<rparr>)
   \<and> hash_password ''s9'' ''newsecret'' = Inr (PwHash argon2 ''s9'' ''newsecret'')
   \<and> ctx_hash user_pwd_context ''s9'' ''newsecret'' = Inr (PwHash bcrypt ''s9'' ''newsecret'')
   \<and> update_current_user_profile ''s9'' alice new_password_by_user = InvalidRequestError"
proof -
  have a: "admin_update_user users_db ''s9'' root 1 new_password_by_admin
     = (users_db\<lparr>users := [alice\<lparr>u_password := PwHash bcrypt ''s9'' ''newsecret''\<rparr>, bob,
                            root]\<rparr>, ValidationError)"
    by (simp add: admin_update_user_def root_def users_db_def empty_db_def alice_def bob_def
        new_password_by_admin_def truthy_def Let_def ctx_hash_def user_pwd_context_def
        unique_columns_def MAX_PASSWORD_SIZE_def)
  have c: "login cfg0 (users_db\<lparr>users := [alice\<lparr>u_password := PwHash bcrypt ''s9'' ''newsecret''\<rparr>, bob, root]\<rparr>)
      100 ''alice@example.com'' ''newsecret'' = Inl UnknownHashError"
    by (simp add: login_def alice_def verify_password_def ctx_verify_def auth_pwd_context_def)
  have r: "register users_db 50 ''s9'' carol_data
       = Inr (users_db\<lparr>users := users users_db @
                [\<lparr>u_id = 4, u_email = ''carol@example.com'', u_username = ''carol'',
                  u_password = PwHash argon2 ''s9'' ''newsecret'', u_role = user,
                  u_created_at = 50\<rparr>]\<rparr>,
              \<lparr>rr_id = 4, rr_email = ''carol@example.com'', rr_username = ''carol'',
               rr_created_at = 50\<rparr>)"
    using register_unfold [of users_db carol_data 50 "''s9''"] carol_fresh(2,3)
    by (simp add: carol_data_def users_db_fresh_id)
  have r': "register users_db 50 ''s9'' carol_data
       = Inr (users_db\<lparr>users := [alice, bob, root,
                 \<lparr>u_id = 4, u_email = ''carol@example.com'', u_username = ''carol'',
                  u_password = PwHash argon2 ''s9'' ''newsecret'', u_role = user,
                  u_created_at = 50\<rparr>]\<rparr>,
              \<lparr>rr_id = 4, rr_email = ''carol@example.com'', rr_username = ''carol'',
               rr_created_at = 50\<rparr>)"
    unfolding r by (simp add: users_db_def)
  have d: "login cfg0 (fst (projr (register users_db 50 ''s9'' carol_data)))
        100 ''carol@example.com'' ''newsecret''
       = Inr ((fst (projr (register users_db 50 ''s9'' carol_data)))
                \<lparr>refresh_tokens :=
                   [\<lparr>t_id = 1, t_user_id = 4,
                     t_token = create_refresh_token cfg0 100 ''4'', t_created_date = 100\<rparr>]\<rparr>,
              \<lparr>access_token = create_access_token cfg0 100 ''4'' ''carol@example.com'',
               refresh_token_of = create_refresh_token cfg0 100 ''4'',
               token_type = ''Bearer''\<rparr>)"
    unfolding r
    by (simp add: login_new_user [OF carol_fresh(2)] str_int_4)
       (simp add: users_db_def empty_db_def fresh_id_def)
  have e: "update_current_user_profile ''s9'' alice new_password_by_user = InvalidRequestError"
    by (simp add: update_current_user_profile_def new_password_by_user_def truthy_def
        ctx_hash_def MAX_PASSWORD_SIZE_def)
  have h: "hash_password ''s9'' ''newsecret'' = Inr (PwHash argon2 ''s9'' ''newsecret'')"
    "ctx_hash user_pwd_context ''s9'' ''newsecret'' = Inr (PwHash bcrypt ''s9'' ''newsecret'')"
    by (simp_all add: hash_password_def ctx_hash_def auth_pwd_context_def
        user_pwd_context_def MAX_PASSWORD_SIZE_def)
  have c': "login cfg0 (fst (admin_update_user users_db ''s9'' root 1 new_password_by_admin))
        100 ''alice@example.com'' ''newsecret'' = Inl UnknownHashError"
    by (simp add: a c)
  show ?thesis
    using a c' r' d e h by blast
qed

section \<open>Sampling without replacement\<close>

lemma sample_pool_length: "length (sample_pool rnd i pool k) = k"
  by (induction k arbitrary: i pool) (simp_all add: Let_def)

lemma pool_remove_mset:
  assumes "j < length pool"
  shows "add_mset (pool ! j) (mset (butlast (pool[j := last pool]))) = mset pool"
proof -
  from assms have ne: "pool \<noteq> []" by auto
  then obtain ys l where p: "pool = ys @ [l]"
    by (metis append_butlast_last_id)
  show ?thesis
  proof (cases "j = length ys")
    case True
    then show ?thesis using p by simp
  next
    case False
    with assms p have j: "j < length ys" by simp
    then have "butlast (pool[j := last pool]) = ys[j := l]"
      using p by (simp add: list_update_append)
    moreover have "pool ! j = ys ! j" using p j by (simp add: nth_append)
    ultimately show ?thesis
      using p j by (simp add: mset_update)
  qed
qed

lemma sample_pool_mset:
  "k \<le> length pool \<Longrightarrow> mset (sample_pool rnd i pool k) \<subseteq># mset pool"
proof (induction k arbitrary: i pool)
  case 0
  then show ?case by simp
next
  case (Suc k)
  let ?j = "rnd i mod length pool"
  let ?rest = "butlast (pool[?j := last pool])"
  from Suc.prems have ne: "pool \<noteq> []" by auto
  then have pos: "0 < length pool" by simp
  from pos have j: "?j < length pool" by simp
  have "k \<le> length ?rest" using Suc.prems ne by simp
  then have "mset (sample_pool rnd (Suc i) ?rest k) \<subseteq># mset ?rest"
    by (rule Suc.IH)
  then have "add_mset (pool ! ?j) (mset (sample_pool rnd (Suc i) ?rest k))
               \<subseteq># add_mset (pool ! ?j) (mset ?rest)"
    by simp
  then show ?case
    using pool_remove_mset [OF j] by (simp add: Let_def)
qed

lemma distinct_mset_subseteq:
  assumes "mset xs \<subseteq># mset ys" and "distinct ys"
  shows "distinct xs"
proof -
  have "count (mset xs) a \<le> 1" for a
  proof -
    have "count (mset xs) a \<le> count (mset ys) a"
      using assms(1) by (rule mset_subset_eq_count)
    also have "\<dots> \<le> 1"
      using assms(2) by (simp add: distinct_count_atmost_1)
    finally show ?thesis .
  qed
  then show ?thesis
    by (metis One_nat_def count_mset_0_iff distinct_count_atmost_1 le_antisym le_zero_eq
        not_less_eq_eq)
qed

lemma random_sample_props:
  assumes "k \<le> length population"
  shows "length (random_sample rnd population k) = k"
    and "set (random_sample rnd population k) \<subseteq> set population"
    and "distinct (map f population) \<Longrightarrow> distinct (map f (random_sample rnd population k))"
proof -
  have m: "mset (random_sample rnd population k) \<subseteq># mset population"
    unfolding random_sample_def using assms by (rule sample_pool_mset)
  show "length (random_sample rnd population k) = k"
    by (simp add: random_sample_def sample_pool_length)
  show "set (random_sample rnd population k) \<subseteq> set population"
    using m by (metis set_mset_mono set_mset_mset)
  assume d: "distinct (map f population)"
  have "mset (map f (random_sample rnd population k)) \<subseteq># mset (map f population)"
    using m by (simp add: image_mset_subseteq_mono)
  then show "distinct (map f (random_sample rnd population k))"
    using d by (rule distinct_mset_subseteq)
qed

section \<open>Starting an exam\<close>

lemma start_exam_unfold:
  assumes "\<forall>e\<in>set (exams d). \<not> (e_user_id e = u_id current_user \<and> e_status e = in_progress)"
  shows "start_exam d now rnd current_user =
     (if length (questions d) < 20 then Inl (HTTPException 400 (Not_enough_questions 20))
      else Inr (d\<lparr>exams := exams d @
                   [\<lparr>e_id = fresh_id (map e_id (exams d)), e_user_id = u_id current_user,
                     e_score = 0, e_status = in_progress, e_started_at = now,
                     e_finished_at = None\<rparr>]\<rparr>,
                \<lparr>sr_exam_id = fresh_id (map e_id (exams d)), sr_started_at = now,
                 sr_questions = map (question_schema d) (random_sample rnd (questions d) 20)\<rparr>))"
proof -
  have f: "find (\<lambda>e. e_user_id e = u_id current_user \<and> e_status e = in_progress) (exams d) = None"
    using assms by (simp add: find_None_iff)
  have q: "\<And>es x. question_schema (d\<lparr>exams := es\<rparr>) x = question_schema d x"
    by (simp add: question_schema_def question_options_def)
  show ?thesis
    by (simp add: start_exam_def f EXAM_QUESTIONS_COUNT_def Let_def q)
qed

lemma start_exam_active:
  assumes "e \<in> set (exams d)" "e_user_id e = u_id current_user" "e_status e = in_progress"
  shows "start_exam d now rnd current_user = Inl (HTTPException 400 Active_exam_exists)"
proof -
  have "find (\<lambda>e. e_user_id e = u_id current_user \<and> e_status e = in_progress) (exams d) \<noteq> None"
    using assms by (auto simp: find_None_iff)
  then show ?thesis
    by (auto simp: start_exam_def)
qed

lemma qs_id_question_schema: "qs_id (question_schema d x) = str_int (q_id x)"
  by (simp add: question_schema_def)

lemma question_schema_flags:
  assumes "answer_options d2 = map (\<lambda>opt. opt\<lparr>o_is_correct := flag opt\<rparr>) (answer_options d)"
  shows "question_schema d2 x = question_schema d x"
  by (simp add: question_schema_def question_options_def assms filter_map comp_def)


lemma start_exam_flags_indep:
  assumes "\<forall>e\<in>set (exams d). \<not> (e_user_id e = u_id current_user \<and> e_status e = in_progress)"
    and big: "20 \<le> length (questions d)"
    and d2: "d2 = d\<lparr>answer_options :=
                  map (\<lambda>opt. opt\<lparr>o_is_correct := flag opt\<rparr>) (answer_options d)\<rparr>"
  shows "snd (projr (start_exam d2 now rnd current_user))
                  = snd (projr (start_exam d now rnd current_user))"
proof -
  have a2: "\<forall>e\<in>set (exams d2). \<not> (e_user_id e = u_id current_user \<and> e_status e = in_progress)"
    using assms(1) d2 by simp
  have s: "\<And>x. question_schema d2 x = question_schema d x"
    by (rule question_schema_flags [where flag = flag]) (simp add: d2)
  have q: "questions d2 = questions d" "exams d2 = exams d"
    by (simp_all add: d2)
  have l: "\<not> length (questions d) < 20" using big by simp
  show ?thesis
    unfolding start_exam_unfold [OF assms(1)] start_exam_unfold [OF a2] q
    using l by (simp add: s)
qed

lemma exam_db_sel [simp]:
  "exams (exam_db m n k st) = [exam1 k st]"
  "length (questions (exam_db m n k st)) = nat m"
  "map q_id (questions (exam_db m n k st)) = [1..m]"
  by (simp_all add: exam_db_def catalog_questions_def comp_def)

text \<open>
  C7 (as amended). When the calling user has no session in progress: if the catalog holds
  at least 20 questions, \<open>start\<close> succeeds and returns exactly 20 questions, all taken
  from the catalog, with pairwise distinct ids, and the response is the same whatever the
  correctness flags of the options are (the response schema has no field for them); if
  the catalog holds fewer than 20 questions, \<open>start\<close> fails with 400 and the detail that
  20 questions are needed (InsufficientData). A handler that fails commits nothing. The
  question ids of the catalog are distinct, being its primary key.
\<close>

theorem start_exam_sample:
  assumes "\<forall>e\<in>set (exams d). \<not> (e_user_id e = u_id current_user \<and> e_status e = in_progress)"
    and "distinct (map q_id (questions d))"
  shows "(20 \<le> length (questions d) \<longrightarrow>
            \<not> isl (start_exam d now rnd current_user)
          \<and> length (sr_questions (snd (projr (start_exam d now rnd current_user)))) = 20
          \<and> distinct (map qs_id (sr_questions (snd (projr (start_exam d now rnd current_user)))))
          \<and> set (sr_questions (snd (projr (start_exam d now rnd current_user))))
               \<subseteq> question_schema d ` set (questions d)
          \<and> (\<forall>flag. snd (projr (start_exam
                  (d\<lparr>answer_options :=
                      map (\<lambda>opt. opt\<lparr>o_is_correct := flag opt\<rparr>) (answer_options d)\<rparr>)
                  now rnd current_user))
                = snd (projr (start_exam d now rnd current_user))))
       \<and> (length (questions d) < 20 \<longrightarrow>
            start_exam d now rnd current_user
              = Inl (HTTPException 400 (Not_enough_questions 20)))"
proof -
  have inj: "distinct (map (\<lambda>x. str_int (q_id x)) (questions d))"
    using assms(2) inj_str_int
    by (metis distinct_map inj_on_subset subset_UNIV map_map [of str_int q_id, unfolded comp_def])
  show ?thesis
  proof (intro conjI impI allI)
    assume big: "20 \<le> length (questions d)"
    show "\<not> isl (start_exam d now rnd current_user)"
      using big by (simp add: start_exam_unfold [OF assms(1)])
    show "length (sr_questions (snd (projr (start_exam d now rnd current_user)))) = 20"
      using big by (simp add: start_exam_unfold [OF assms(1)] random_sample_props(1))
    show "distinct (map qs_id (sr_questions (snd (projr (start_exam d now rnd current_user)))))"
      using big random_sample_props(3) [OF big inj, of rnd]
      by (simp add: start_exam_unfold [OF assms(1)] comp_def qs_id_question_schema)
    show "set (sr_questions (snd (projr (start_exam d now rnd current_user))))
               \<subseteq> question_schema d ` set (questions d)"
      using big random_sample_props(2) [OF big, of rnd]
      by (auto simp: start_exam_unfold [OF assms(1)])
  next
    fix flag
    assume big: "20 \<le> length (questions d)"
    show "snd (projr (start_exam
                  (d\<lparr>answer_options :=
                      map (\<lambda>opt. opt\<lparr>o_is_correct := flag opt\<rparr>) (answer_options d)\<rparr>)
                  now rnd current_user))
                = snd (projr (start_exam d now rnd current_user))"
      by (rule start_exam_flags_indep [OF assms(1) big refl])
  next
    assume "length (questions d) < 20"
    then show "start_exam d now rnd current_user
              = Inl (HTTPException 400 (Not_enough_questions 20))"
      by (simp add: start_exam_unfold [OF assms(1)])
  qed
qed

theorem start_exam_sample_witness:
  "length (sr_questions (snd (projr (start_exam (exam_db 20 0 0 in_progress) 100 draws bob))))
     = 20
   \<and> distinct (map qs_id
        (sr_questions (snd (projr (start_exam (exam_db 20 0 0 in_progress) 100 draws bob)))))
   \<and> start_exam (exam_db 5 0 0 in_progress) 100 draws bob
       = Inl (HTTPException 400 (Not_enough_questions 20))"
proof -
  have a: "\<And>m. \<forall>e\<in>set (exams (exam_db m 0 0 in_progress)).
             \<not> (e_user_id e = u_id bob \<and> e_status e = in_progress)"
    by (simp add: alice_def bob_def)
  have b: "\<And>m. distinct (map q_id (questions (exam_db m 0 0 in_progress)))"
    by simp
  show ?thesis
    using start_exam_sample [OF a b, of 20 100 draws] start_exam_sample [OF a b, of 5 100 draws]
    by simp
qed

text \<open>
  The claim as first stated has no condition on the caller: a user with a session in
  progress gets 400 with the detail of the active exam (Conflict), whether the catalog
  holds 20 questions or 5.
\<close>

theorem start_exam_sample_counterexample:
  "length (questions (exam_db 20 0 0 in_progress)) = 20
   \<and> start_exam (exam_db 20 0 0 in_progress) 100 draws alice
       = Inl (HTTPException 400 Active_exam_exists)
   \<and> length (questions (exam_db 5 0 0 in_progress)) = 5
   \<and> start_exam (exam_db 5 0 0 in_progress) 100 draws alice
       = Inl (HTTPException 400 Active_exam_exists)"
proof -
  have "\<And>m. start_exam (exam_db m 0 0 in_progress) 100 draws alice
       = Inl (HTTPException 400 Active_exam_exists)"
    by (rule start_exam_active [where e = "exam1 0 in_progress"]) simp_all
  then show ?thesis by simp
qed

section \<open>What a successful request does to the exam tables\<close>

lemma start_exam_Inr:
  assumes "start_exam d now rnd u = Inr (d', r)"
  shows "(\<forall>e\<in>set (exams d). \<not> (e_user_id e = u_id u \<and> e_status e = in_progress))
       \<and> d' = d\<lparr>exams := exams d @
                   [\<lparr>e_id = fresh_id (map e_id (exams d)), e_user_id = u_id u,
                     e_score = 0, e_status = in_progress, e_started_at = now,
                     e_finished_at = None\<rparr>]\<rparr>
       \<and> sr_exam_id r = fresh_id (map e_id (exams d))"
proof -
  have n: "find (\<lambda>e. e_user_id e = u_id u \<and> e_status e = in_progress) (exams d) = None"
    using assms by (auto simp: start_exam_def split: option.splits)
  then have a: "\<forall>e\<in>set (exams d). \<not> (e_user_id e = u_id u \<and> e_status e = in_progress)"
    by (simp add: find_None_iff)
  show ?thesis
    using assms a by (auto simp: start_exam_unfold [OF a] split: if_splits)
qed

lemma answer_question_Inr:
  assumes "answer_question d now u exam_id question_id option_id = Inr (d', r)"
  shows "\<exists>exam opt.
           find (\<lambda>e. e_id e = exam_id) (exams d) = Some exam
         \<and> e_user_id exam = u_id u \<and> e_status exam = in_progress
         \<and> find (\<lambda>q. q_id q = question_id) (questions d) \<noteq> None
         \<and> find (\<lambda>opt. o_id opt = option_id \<and> o_question_id opt = question_id)
              (answer_options d) = Some opt
         \<and> find (\<lambda>a. a_exam_id a = exam_id \<and> a_question_id a = question_id)
              (exam_answers d) = None
         \<and> d' = d\<lparr>exam_answers := exam_answers d @
                     [\<lparr>a_id = fresh_id (map a_id (exam_answers d)), a_exam_id = exam_id,
                       a_question_id = question_id, a_selected_option_id = option_id,
                       a_is_correct = o_is_correct opt, a_answered_at = now\<rparr>],
                   exams := update_first (\<lambda>e. e_id e = exam_id)
                     (\<lambda>e. e\<lparr>e_score := (if o_is_correct opt then e_score exam + 1
                                           else e_score exam)\<rparr>) (exams d)\<rparr>
         \<and> r = \<lparr>ar_is_correct = o_is_correct opt,
                 ar_current_score = (if o_is_correct opt then e_score exam + 1
                                     else e_score exam)\<rparr>"
  using assms
  by (auto simp: answer_question_def Let_def split: option.splits if_splits)

lemma answer_question_success:
  assumes "find (\<lambda>e. e_id e = exam_id) (exams d) = Some exam"
    and "e_user_id exam = u_id u" and "e_status exam = in_progress"
    and "find (\<lambda>q. q_id q = question_id) (questions d) \<noteq> None"
    and "find (\<lambda>opt. o_id opt = option_id \<and> o_question_id opt = question_id)
              (answer_options d) = Some opt"
    and "find (\<lambda>a. a_exam_id a = exam_id \<and> a_question_id a = question_id)
              (exam_answers d) = None"
  shows "answer_question d now u exam_id question_id option_id =
     Inr (d\<lparr>exam_answers := exam_answers d @
                     [\<lparr>a_id = fresh_id (map a_id (exam_answers d)), a_exam_id = exam_id,
                       a_question_id = question_id, a_selected_option_id = option_id,
                       a_is_correct = o_is_correct opt, a_answered_at = now\<rparr>],
             exams := update_first (\<lambda>e. e_id e = exam_id)
                     (\<lambda>e. e\<lparr>e_score := (if o_is_correct opt then e_score exam + 1
                                           else e_score exam)\<rparr>) (exams d)\<rparr>,
          \<lparr>ar_is_correct = o_is_correct opt,
           ar_current_score = (if o_is_correct opt then e_score exam + 1 else e_score exam)\<rparr>)"
  using assms
  by (auto simp: answer_question_def Let_def split: option.splits)

lemma finish_exam_Inr:
  assumes "finish_exam d now u exam_id = Inr (d', r)"
  shows "\<exists>exam.
           find (\<lambda>e. e_id e = exam_id) (exams d) = Some exam
         \<and> e_user_id exam = u_id u \<and> e_status exam = in_progress
         \<and> 20 \<le> length (exam_answers_of d exam_id)
         \<and> d' = d\<lparr>exams := update_first (\<lambda>e. e_id e = exam_id)
                   (\<lambda>e. exam\<lparr>e_status := (if 18 \<le> e_score exam then completed else failed),
                              e_finished_at := Some now\<rparr>) (exams d)\<rparr>"
proof -
  obtain exam where f: "find (\<lambda>e. e_id e = exam_id) (exams d) = Some exam"
    using assms by (auto simp: finish_exam_def split: option.splits)
  have o: "e_user_id exam = u_id u" and s: "e_status exam = in_progress"
    using assms f by (auto simp: finish_exam_def split: if_splits)
  show ?thesis
    using assms f o s by (auto simp: finish_exam_unfold [OF f o s] split: if_splits)
qed

lemma map_sum_fst_Inr: "map_sum (\<lambda>e. e) fst x = Inr d' \<Longrightarrow> \<exists>r. x = Inr (d', r)"
  by (cases x) auto

lemma as_user_Inr:
  assumes "as_user cfg d now cred handler = Inr d'"
  shows "\<exists>u r. get_current_user cfg d now cred = Inr u \<and> handler u = Inr (d', r)"
  using assms
  by (auto simp: as_user_def split: sum.splits dest: map_sum_fst_Inr)

lemma admin_update_user_tables:
  "exams (fst (admin_update_user d salt u user_id update_data)) = exams d"
  "exam_answers (fst (admin_update_user d salt u user_id update_data)) = exam_answers d"
  by (simp_all add: admin_update_user_def Let_def split: option.splits sum.splits)

lemma delete_question_Inr:
  assumes "delete_question d u question_id = Inr (d', r)"
  shows "exams d' = exams d"
    and "\<exists>P. exam_answers d' = filter P (exam_answers d)"
  using assms
  by (auto simp: delete_question_def split: option.splits)

lemma delete_category_Inr:
  assumes "delete_category d u category_id = Inr (d', r)"
  shows "exams d' = exams d"
    and "\<exists>P. exam_answers d' = filter P (exam_answers d)"
  using assms
  by (auto simp: delete_category_def Let_def split: option.splits)

lemma step_cases:
  "(exams (step cfg d (now, req)) = exams d
      \<and> exam_answers (step cfg d (now, req)) = exam_answers d)
   \<or> (is_delete req \<and> exams (step cfg d (now, req)) = exams d
      \<and> (\<exists>P. exam_answers (step cfg d (now, req)) = filter P (exam_answers d)))
   \<or> (\<exists>u rnd r. start_exam d now rnd u = Inr (step cfg d (now, req), r))
   \<or> (\<exists>u exam_id question_id option_id r.
         answer_question d now u exam_id question_id option_id = Inr (step cfg d (now, req), r))
   \<or> (\<exists>u exam_id r. finish_exam d now u exam_id = Inr (step cfg d (now, req), r))"
proof (cases req)
  case (Register salt user_data)
  then show ?thesis
    by (auto simp: step_def register_def Let_def split: sum.splits if_splits)
next
  case (Login email password)
  then show ?thesis
    by (auto simp: step_def login_def Let_def split: sum.splits option.splits bool.splits)
next
  case (Refresh tok)
  then show ?thesis
    by (cases "refresh_token cfg d now tok") (auto simp: step_def)
next
  case (Logout tok)
  then show ?thesis by (auto simp: step_def logout_def split: option.splits)
next
  case (UpdateMe cred salt update_data)
  then show ?thesis
    by (auto simp: step_def as_user_def split: sum.splits)
next
  case (AdminUpdate cred salt user_id update_data)
  then show ?thesis
    by (auto simp: step_def as_user_def admin_update_user_tables split: sum.splits)
next
  case (StartExam cred rnd)
  show ?thesis
  proof (cases "handle cfg d now req")
    case (Inl e)
    then show ?thesis by (simp add: step_def)
  next
    case (Inr d')
    then obtain u r where "start_exam d now rnd u = Inr (d', r)"
      using StartExam as_user_Inr by fastforce
    then show ?thesis using Inr by (auto simp: step_def)
  qed
next
  case (AnswerQuestion cred exam_id question_id option_id)
  show ?thesis
  proof (cases "handle cfg d now req")
    case (Inl e)
    then show ?thesis by (simp add: step_def)
  next
    case (Inr d')
    then obtain u r where "answer_question d now u exam_id question_id option_id = Inr (d', r)"
      using AnswerQuestion as_user_Inr by fastforce
    then show ?thesis using Inr by (auto simp: step_def)
  qed
next
  case (FinishExam cred exam_id)
  show ?thesis
  proof (cases "handle cfg d now req")
    case (Inl e)
    then show ?thesis by (simp add: step_def)
  next
    case (Inr d')
    then obtain u r where "finish_exam d now u exam_id = Inr (d', r)"
      using FinishExam as_user_Inr by fastforce
    then show ?thesis using Inr by (auto simp: step_def)
  qed
next
  case (DeleteQuestion cred question_id)
  show ?thesis
  proof (cases "handle cfg d now req")
    case (Inl e)
    then show ?thesis by (simp add: step_def)
  next
    case (Inr d')
    then obtain u r where "delete_question d u question_id = Inr (d', r)"
      using DeleteQuestion as_user_Inr by fastforce
    from delete_question_Inr [OF this] show ?thesis
      using Inr DeleteQuestion by (simp add: step_def)
  qed
next
  case (DeleteCategory cred category_id)
  show ?thesis
  proof (cases "handle cfg d now req")
    case (Inl e)
    then show ?thesis by (simp add: step_def)
  next
    case (Inr d')
    then obtain u r where "delete_category d u category_id = Inr (d', r)"
      using DeleteCategory as_user_Inr by fastforce
    from delete_category_Inr [OF this] show ?thesis
      using Inr DeleteCategory by (simp add: step_def)
  qed
qed


section \<open>One exam in progress per user\<close>

lemma one_in_progress_alt:
  "one_in_progress d \<longleftrightarrow>
     (\<forall>uid. length (filter (\<lambda>x. e_user_id x = uid \<and> e_status x = in_progress) (exams d)) \<le> 1)"
proof
  assume o: "one_in_progress d"
  show "\<forall>uid. length (filter (\<lambda>x. e_user_id x = uid \<and> e_status x = in_progress) (exams d)) \<le> 1"
  proof
    fix uid
    show "length (filter (\<lambda>x. e_user_id x = uid \<and> e_status x = in_progress) (exams d)) \<le> 1"
    proof (cases "\<exists>e\<in>set (exams d). e_user_id e = uid")
      case True
      then show ?thesis using o by (auto simp: one_in_progress_def)
    next
      case False
      then have "filter (\<lambda>x. e_user_id x = uid \<and> e_status x = in_progress) (exams d) = []"
        by (auto simp: filter_empty_conv)
      then show ?thesis by simp
    qed
  qed
next
  assume "\<forall>uid. length (filter (\<lambda>x. e_user_id x = uid \<and> e_status x = in_progress) (exams d)) \<le> 1"
  then show "one_in_progress d" by (simp add: one_in_progress_def)
qed

lemma filter_update_first_le:
  assumes "\<And>x. x \<in> set xs \<Longrightarrow> P x \<Longrightarrow> Q (f x) \<Longrightarrow> Q x"
  shows "length (filter Q (update_first P f xs)) \<le> length (filter Q xs)"
  using assms by (induction xs) auto

lemma one_in_progress_start:
  assumes "start_exam d now rnd u = Inr (d', r)" and "one_in_progress d"
  shows "one_in_progress d'"
proof -
  from start_exam_Inr [OF assms(1)]
  have none: "\<forall>e\<in>set (exams d). \<not> (e_user_id e = u_id u \<and> e_status e = in_progress)"
    and d': "exams d' = exams d @
                   [\<lparr>e_id = fresh_id (map e_id (exams d)), e_user_id = u_id u,
                     e_score = 0, e_status = in_progress, e_started_at = now,
                     e_finished_at = None\<rparr>]"
    by simp_all
  have z: "filter (\<lambda>x. e_user_id x = u_id u \<and> e_status x = in_progress) (exams d) = []"
    using none by (auto simp: filter_empty_conv)
  show ?thesis
    unfolding one_in_progress_alt
  proof
    fix uid
    show "length (filter (\<lambda>x. e_user_id x = uid \<and> e_status x = in_progress) (exams d')) \<le> 1"
      using assms(2) [unfolded one_in_progress_alt, rule_format, of uid] z
      by (cases "uid = u_id u") (auto simp: d')
  qed
qed

lemma one_in_progress_answer:
  assumes "answer_question d now u exam_id question_id option_id = Inr (d', r)"
    and "one_in_progress d"
  shows "one_in_progress d'"
proof -
  from answer_question_Inr [OF assms(1)] obtain exam :: Exam and opt :: AnswerOption where
    d': "exams d' = update_first (\<lambda>e. e_id e = exam_id)
          (\<lambda>e. e\<lparr>e_score := (if o_is_correct opt then e_score exam + 1 else e_score exam)\<rparr>)
          (exams d)"
    by auto
  show ?thesis
    unfolding one_in_progress_alt
  proof
    fix uid
    have "length (filter (\<lambda>x. e_user_id x = uid \<and> e_status x = in_progress) (exams d'))
            \<le> length (filter (\<lambda>x. e_user_id x = uid \<and> e_status x = in_progress) (exams d))"
      unfolding d' by (rule filter_update_first_le) simp
    then show "length (filter (\<lambda>x. e_user_id x = uid \<and> e_status x = in_progress) (exams d')) \<le> 1"
      using assms(2) [unfolded one_in_progress_alt, rule_format, of uid] by simp
  qed
qed

lemma one_in_progress_finish:
  assumes "finish_exam d now u exam_id = Inr (d', r)"
    and "one_in_progress d"
  shows "one_in_progress d'"
proof -
  from finish_exam_Inr [OF assms(1)] obtain exam :: Exam where
    d': "exams d' = update_first (\<lambda>e. e_id e = exam_id)
                   (\<lambda>e. exam\<lparr>e_status := (if 18 \<le> e_score exam then completed else failed),
                              e_finished_at := Some now\<rparr>) (exams d)"
    by auto
  show ?thesis
    unfolding one_in_progress_alt
  proof
    fix uid
    have "length (filter (\<lambda>x. e_user_id x = uid \<and> e_status x = in_progress) (exams d'))
            \<le> length (filter (\<lambda>x. e_user_id x = uid \<and> e_status x = in_progress) (exams d))"
      unfolding d' by (rule filter_update_first_le) (simp split: if_splits)
    then show "length (filter (\<lambda>x. e_user_id x = uid \<and> e_status x = in_progress) (exams d')) \<le> 1"
      using assms(2) [unfolded one_in_progress_alt, rule_format, of uid] by simp
  qed
qed

lemma one_in_progress_step:
  assumes "one_in_progress d"
  shows "one_in_progress (step cfg d (now, req))"
proof -
  consider
    (same) "exams (step cfg d (now, req)) = exams d"
  | (start) u rnd r where "start_exam d now rnd u = Inr (step cfg d (now, req), r)"
  | (answer) u exam_id question_id option_id r where
      "answer_question d now u exam_id question_id option_id = Inr (step cfg d (now, req), r)"
  | (finish) u exam_id r where "finish_exam d now u exam_id = Inr (step cfg d (now, req), r)"
    using step_cases [of cfg d now req] by blast
  then show ?thesis
  proof cases
    case same
    then show ?thesis using assms by (simp add: one_in_progress_def)
  next
    case start
    then show ?thesis using assms by (rule one_in_progress_start)
  next
    case answer
    then show ?thesis using assms by (rule one_in_progress_answer)
  next
    case finish
    then show ?thesis using assms by (rule one_in_progress_finish)
  qed
qed

lemma step_error_unchanged: "isl (handle cfg d now req) \<Longrightarrow> step cfg d (now, req) = d"
  by (cases "handle cfg d now req") (simp_all add: step_def)

lemma as_user_error:
  "get_current_user cfg d now cred = Inr u \<Longrightarrow> handler u = Inl e \<Longrightarrow>
   as_user cfg d now cred handler = Inl e"
  by (simp add: as_user_def)

lemma one_in_progress_run:
  "one_in_progress d \<Longrightarrow> one_in_progress (run cfg d rs)"
proof (induction rs arbitrary: d)
  case Nil
  then show ?case by (simp add: run_def)
next
  case (Cons r rs)
  obtain now req where r: "r = (now, req)" by (cases r)
  have "one_in_progress (step cfg d r)"
    unfolding r using Cons.prems by (rule one_in_progress_step)
  then have "one_in_progress (run cfg (step cfg d r) rs)" by (rule Cons.IH)
  then show ?case by (simp add: run_def)
qed

text \<open>
  C2. For every user at most one exam with status \<open>in_progress\<close> exists: the empty
  database has the property, every request keeps it (so every sequence of requests
  does), and \<open>start\<close> by a user who has an exam in progress fails with 400 and the
  detail of the active exam (Conflict), leaving the database as it was.
\<close>

theorem one_in_progress_invariant:
  "one_in_progress empty_db
   \<and> (one_in_progress d \<longrightarrow>
        (\<forall>uid. length (filter (\<lambda>x. e_user_id x = uid \<and> e_status x = in_progress) (exams d))
                 \<le> 1)
      \<and> one_in_progress (step cfg d (now, req))
      \<and> one_in_progress (run cfg d rs))
   \<and> ((\<exists>e\<in>set (exams d). e_user_id e = u_id current_user \<and> e_status e = in_progress) \<longrightarrow>
        start_exam d now rnd current_user = Inl (HTTPException 400 Active_exam_exists)
      \<and> (get_current_user cfg d now cred = Inr current_user \<longrightarrow>
           step cfg d (now, StartExam cred rnd) = d))"
proof (intro conjI impI)
  show "one_in_progress empty_db"
    by (simp add: one_in_progress_def empty_db_def)
next
  assume o: "one_in_progress d"
  show "\<forall>uid. length (filter (\<lambda>x. e_user_id x = uid \<and> e_status x = in_progress) (exams d)) \<le> 1"
    using o by (simp add: one_in_progress_alt)
  show "one_in_progress (step cfg d (now, req))"
    using o by (rule one_in_progress_step)
  show "one_in_progress (run cfg d rs)"
    using o by (rule one_in_progress_run)
next
  assume a: "\<exists>e\<in>set (exams d). e_user_id e = u_id current_user \<and> e_status e = in_progress"
  then show s: "start_exam d now rnd current_user = Inl (HTTPException 400 Active_exam_exists)"
    using start_exam_active by blast
  assume "get_current_user cfg d now cred = Inr current_user"
  then have "handle cfg d now (StartExam cred rnd) = Inl (HTTPException 400 Active_exam_exists)"
    using s by (simp add: as_user_error)
  then show "step cfg d (now, StartExam cred rnd) = d"
    by (simp add: step_error_unchanged)
qed

lemma get_current_user_alice:
  "find (\<lambda>u. u_id u = 1) (users d) = Some alice \<Longrightarrow>
   get_current_user cfg0 d 100 alice_access = Inr alice"
  by (simp add: get_current_user_def decode_token_def alice_access_def create_access_token_def
      cfg0_def int_py_1)

lemma exam_db_users [simp]: "users (exam_db m n k st) = [alice, bob, root]"
  by (simp add: exam_db_def)

theorem one_in_progress_invariant_witness:
  "one_in_progress (exam_db 20 0 0 in_progress)
   \<and> one_in_progress (step cfg0 (exam_db 20 0 0 in_progress) (100, StartExam bob_access draws))
   \<and> start_exam (exam_db 20 0 0 in_progress) 100 draws alice
       = Inl (HTTPException 400 Active_exam_exists)
   \<and> step cfg0 (exam_db 20 0 0 in_progress) (100, StartExam alice_access draws)
       = exam_db 20 0 0 in_progress"
proof -
  have o: "one_in_progress (exam_db 20 0 0 in_progress)"
    by (simp add: one_in_progress_def)
  have e: "\<exists>e\<in>set (exams (exam_db 20 0 0 in_progress)).
             e_user_id e = u_id alice \<and> e_status e = in_progress"
    by simp
  have g: "get_current_user cfg0 (exam_db 20 0 0 in_progress) 100 alice_access = Inr alice"
    by (rule get_current_user_alice) (simp add: alice_def)
  show ?thesis
    using o e g
      one_in_progress_invariant [of "exam_db 20 0 0 in_progress" cfg0 100
        "StartExam bob_access draws" "[]" alice draws alice_access]
    by simp
qed

section \<open>Answering a question\<close>

lemma catalog_question_ex:
  "1 \<le> i \<Longrightarrow> i \<le> m \<Longrightarrow> \<exists>q\<in>set (catalog_questions m). q_id q = i"
  by (auto simp: catalog_questions_def)

lemma catalog_option_ex:
  "1 \<le> i \<Longrightarrow> i \<le> m \<Longrightarrow>
   \<exists>opt\<in>set (catalog_options m). o_id opt = 2 * i \<and> o_question_id opt = i"
  by (auto simp: catalog_options_def)

lemma catalog_option_bound:
  "opt \<in> set (catalog_options m) \<Longrightarrow> o_id opt \<le> 2 * m + 1"
  by (auto simp: catalog_options_def)

lemma answers_upto_bound:
  "a \<in> set (answers_upto n k) \<Longrightarrow> a_question_id a \<le> n"
  by (auto simp: answers_upto_def)

lemma exam_db_tables [simp]:
  "questions (exam_db m n k st) = catalog_questions m"
  "answer_options (exam_db m n k st) = catalog_options m"
  "exam_answers (exam_db m n k st) = answers_upto n k"
  by (simp_all add: exam_db_def)

lemma find_Some_ex: "\<exists>x\<in>set xs. P x \<Longrightarrow> \<exists>y. find P xs = Some y"
  by (cases "find P xs") (auto simp: find_None_iff)






section \<open>Answering a question twice\<close>

lemma answer_question_answered:
  assumes "find (\<lambda>e. e_id e = exam_id) (exams d) = Some exam"
    and "find (\<lambda>a. a_exam_id a = exam_id \<and> a_question_id a = question_id)
           (exam_answers d) \<noteq> None"
  shows "answer_question d now u exam_id question_id option_id =
     (if e_user_id exam \<noteq> u_id u then Inl (HTTPException 403 Not_your_exam)
      else if e_status exam \<noteq> in_progress then Inl (HTTPException 400 Exam_already_finished)
      else if find (\<lambda>q. q_id q = question_id) (questions d) = None
      then Inl (HTTPException 404 Question_not_found)
      else if find (\<lambda>opt. o_id opt = option_id \<and> o_question_id opt = question_id)
                (answer_options d) = None
      then Inl (HTTPException 404 Option_not_found)
      else Inl (HTTPException 400 Already_answered))"
  using assms by (auto simp: answer_question_def split: option.splits)

lemma one_answer_step:
  assumes "one_answer_per_question d"
  shows "one_answer_per_question (step cfg d (now, req))"
proof -
  consider
    (same) "exam_answers (step cfg d (now, req)) = exam_answers d"
  | (delete) P where "exam_answers (step cfg d (now, req)) = filter P (exam_answers d)"
  | (start) u rnd r where "start_exam d now rnd u = Inr (step cfg d (now, req), r)"
  | (answer) u exam_id question_id option_id r where
      "answer_question d now u exam_id question_id option_id = Inr (step cfg d (now, req), r)"
  | (finish) u exam_id r where "finish_exam d now u exam_id = Inr (step cfg d (now, req), r)"
    using step_cases [of cfg d now req] by blast
  then show ?thesis
  proof cases
    case same
    then show ?thesis using assms by (simp add: one_answer_per_question_def)
  next
    case delete
    then show ?thesis
      using assms by (simp add: one_answer_per_question_def distinct_map_filter)
  next
    case start
    have "exam_answers (step cfg d (now, req)) = exam_answers d"
      using start_exam_Inr [OF start, THEN conjunct2, THEN conjunct1]
      by (metis (no_types, lifting) db.select_convs(6) db.surjective db.update_convs(5))
    then show ?thesis using assms by (simp add: one_answer_per_question_def)
  next
    case answer
    from answer_question_Inr [OF answer] obtain opt :: AnswerOption where
      n: "find (\<lambda>a. a_exam_id a = exam_id \<and> a_question_id a = question_id)
              (exam_answers d) = None"
      and e: "exam_answers (step cfg d (now, req)) = exam_answers d @
                     [\<lparr>a_id = fresh_id (map a_id (exam_answers d)), a_exam_id = exam_id,
                       a_question_id = question_id, a_selected_option_id = option_id,
                       a_is_correct = o_is_correct opt, a_answered_at = now\<rparr>]"
      by auto
    have "(exam_id, question_id) \<notin> (\<lambda>a. (a_exam_id a, a_question_id a)) ` set (exam_answers d)"
      using n by (auto simp: find_None_iff)
    then show ?thesis
      using assms by (simp add: one_answer_per_question_def e)
  next
    case finish
    from finish_exam_Inr [OF finish] have "exam_answers (step cfg d (now, req)) = exam_answers d"
      by auto
    then show ?thesis using assms by (simp add: one_answer_per_question_def)
  qed
qed

lemma after_answer_state:
  assumes "answer_question d now u exam_id question_id option_id = Inr (d', r)"
  shows "\<exists>exam'. find (\<lambda>e. e_id e = exam_id) (exams d') = Some exam'
           \<and> e_user_id exam' = u_id u \<and> e_status exam' = in_progress"
    and "find (\<lambda>a. a_exam_id a = exam_id \<and> a_question_id a = question_id)
              (exam_answers d') \<noteq> None"
    and "questions d' = questions d" and "answer_options d' = answer_options d"
    and "find (\<lambda>q. q_id q = question_id) (questions d) \<noteq> None"
    and "find (\<lambda>opt. o_id opt = option_id \<and> o_question_id opt = question_id)
              (answer_options d) \<noteq> None"
proof -
  from answer_question_Inr [OF assms] obtain exam :: Exam and opt :: AnswerOption where
    f: "find (\<lambda>e. e_id e = exam_id) (exams d) = Some exam"
    and ow: "e_user_id exam = u_id u" and st: "e_status exam = in_progress"
    and q: "find (\<lambda>q. q_id q = question_id) (questions d) \<noteq> None"
    and o: "find (\<lambda>opt. o_id opt = option_id \<and> o_question_id opt = question_id)
              (answer_options d) = Some opt"
    and d': "d' = d\<lparr>exam_answers := exam_answers d @
                     [\<lparr>a_id = fresh_id (map a_id (exam_answers d)), a_exam_id = exam_id,
                       a_question_id = question_id, a_selected_option_id = option_id,
                       a_is_correct = o_is_correct opt, a_answered_at = now\<rparr>],
                   exams := update_first (\<lambda>e. e_id e = exam_id)
                     (\<lambda>e. e\<lparr>e_score := (if o_is_correct opt then e_score exam + 1
                                           else e_score exam)\<rparr>) (exams d)\<rparr>"
    by blast
  let ?exam' = "exam\<lparr>e_score := (if o_is_correct opt then e_score exam + 1 else e_score exam)\<rparr>"
  have id: "e_id exam = exam_id" using find_Some_mem [OF f] by simp
  have f': "find (\<lambda>e. e_id e = exam_id) (exams d') = Some ?exam'"
    using find_update_first [OF f, of "\<lambda>e. e\<lparr>e_score := (if o_is_correct opt then e_score exam + 1
                                           else e_score exam)\<rparr>"] id
    by (simp add: d')
  show "\<exists>exam'. find (\<lambda>e. e_id e = exam_id) (exams d') = Some exam'
           \<and> e_user_id exam' = u_id u \<and> e_status exam' = in_progress"
    using f' ow st by simp
  show "find (\<lambda>a. a_exam_id a = exam_id \<and> a_question_id a = question_id)
              (exam_answers d') \<noteq> None"
    unfolding d' find_None_iff
    by (simp, rule exI [where x = "\<lparr>a_id = fresh_id (map a_id (exam_answers d)),
          a_exam_id = exam_id, a_question_id = question_id, a_selected_option_id = option_id,
          a_is_correct = o_is_correct opt, a_answered_at = now\<rparr>"], simp)
  show "questions d' = questions d" "answer_options d' = answer_options d"
    by (simp_all add: d')
  show "find (\<lambda>q. q_id q = question_id) (questions d) \<noteq> None" by (rule q)
  show "find (\<lambda>opt. o_id opt = option_id \<and> o_question_id opt = question_id)
              (answer_options d) \<noteq> None"
    using o by simp
qed

lemma projr_collapse: "\<not> isl x \<Longrightarrow> x = Inr (fst (projr x), snd (projr x))"
  by (cases x) auto

lemma answer_question_not_isl:
  assumes "find (\<lambda>e. e_id e = exam_id) (exams d) = Some exam"
    and "e_user_id exam = u_id current_user"
    and "e_status exam = in_progress"
    and "\<exists>q\<in>set (questions d). q_id q = question_id"
    and "\<exists>opt\<in>set (answer_options d). o_id opt = option_id \<and> o_question_id opt = question_id"
    and "\<forall>a\<in>set (exam_answers d). \<not> (a_exam_id a = exam_id \<and> a_question_id a = question_id)"
  shows "\<not> isl (answer_question d now current_user exam_id question_id option_id)"
proof -
  have q: "find (\<lambda>q. q_id q = question_id) (questions d) \<noteq> None"
    using assms(4) by (auto simp: find_None_iff)
  obtain opt where o: "find (\<lambda>opt. o_id opt = option_id \<and> o_question_id opt = question_id)
                         (answer_options d) = Some opt"
    using find_Some_ex [OF assms(5)] by blast
  have n: "find (\<lambda>a. a_exam_id a = exam_id \<and> a_question_id a = question_id)
             (exam_answers d) = None"
    using assms(6) by (auto simp: find_None_iff)
  show ?thesis
    by (simp add: answer_question_success [OF assms(1-3) q o n])
qed

lemma first_answer:
  "answer_question (exam_db 20 0 0 in_progress) 100 alice 1 1 2
     = Inr (after_first_answer,
            snd (projr (answer_question (exam_db 20 0 0 in_progress) 100 alice 1 1 2)))"
proof -
  have q: "\<exists>q\<in>set (questions (exam_db 20 0 0 in_progress)). q_id q = 1"
    using catalog_question_ex [of 1 20] by simp
  have o: "\<exists>opt\<in>set (answer_options (exam_db 20 0 0 in_progress)).
             o_id opt = 2 \<and> o_question_id opt = 1"
    using catalog_option_ex [of 1 20] by simp
  have n: "\<forall>a\<in>set (exam_answers (exam_db 20 0 0 in_progress)).
             \<not> (a_exam_id a = 1 \<and> a_question_id a = 1)"
    using answers_upto_bound [of _ 0 0] by fastforce
  have "\<not> isl (answer_question (exam_db 20 0 0 in_progress) 100 alice 1 1 2)"
    by (rule answer_question_not_isl [OF exam_db_find _ _ q o n]) simp_all
  then show ?thesis
    unfolding after_first_answer_def by (rule projr_collapse)
qed

text \<open>
  C3 (as amended). For every exam and question at most one answer is recorded: the empty
  database has the property and every request keeps it. After an accepted \<open>answer\<close>, a
  second \<open>answer\<close> call for the same question in the same session always fails: by the
  owner with an option that belongs to the question (in particular the same option) it
  fails with 400 and the detail that the question is answered already (Conflict), and
  whoever calls, with whatever option, nothing is recorded, so the score and the answers
  of the session stay as they were.
\<close>

theorem second_answer_rejected:
  assumes "answer_question d now u exam_id question_id option_id = Inr (d', r)"
  shows "answer_question d' now' u exam_id question_id option_id
           = Inl (HTTPException 400 Already_answered)
       \<and> ((\<exists>opt\<in>set (answer_options d'). o_id opt = other \<and> o_question_id opt = question_id) \<longrightarrow>
            answer_question d' now' u exam_id question_id other
              = Inl (HTTPException 400 Already_answered))
       \<and> isl (answer_question d' now' caller exam_id question_id other)
       \<and> step cfg d' (now', AnswerQuestion cred exam_id question_id other) = d'
       \<and> one_answer_per_question empty_db
       \<and> (one_answer_per_question d0 \<longrightarrow> one_answer_per_question (step cfg d0 (t, req)))"
proof -
  from after_answer_state(1) [OF assms] obtain exam' :: Exam where
    f': "find (\<lambda>e. e_id e = exam_id) (exams d') = Some exam'"
    and ow: "e_user_id exam' = u_id u" and st: "e_status exam' = in_progress"
    by blast
  note a' = after_answer_state(2) [OF assms]
  have q': "find (\<lambda>q. q_id q = question_id) (questions d') \<noteq> None"
    using after_answer_state(3,5) [OF assms] by simp
  have o': "find (\<lambda>opt. o_id opt = option_id \<and> o_question_id opt = question_id)
              (answer_options d') \<noteq> None"
    using after_answer_state(4,6) [OF assms] by simp
  note unfold = answer_question_answered [OF f' a']
  have c1: "answer_question d' now' u exam_id question_id option_id
           = Inl (HTTPException 400 Already_answered)"
    using ow st q' o' by (simp add: unfold)
  have c2: "(\<exists>opt\<in>set (answer_options d'). o_id opt = other \<and> o_question_id opt = question_id) \<longrightarrow>
            answer_question d' now' u exam_id question_id other
              = Inl (HTTPException 400 Already_answered)"
    using ow st q' by (auto simp: unfold find_None_iff)
  have c3: "\<And>who. isl (answer_question d' now' who exam_id question_id other)"
    by (simp add: unfold)
  have c4: "step cfg d' (now', AnswerQuestion cred exam_id question_id other) = d'"
  proof (rule step_error_unchanged)
    show "isl (handle cfg d' now' (AnswerQuestion cred exam_id question_id other))"
      using c3 by (cases "get_current_user cfg d' now' cred")
        (auto simp: as_user_def isl_map_sum)
  qed
  have c5: "one_answer_per_question empty_db"
    by (simp add: one_answer_per_question_def empty_db_def)
  show ?thesis
    using c1 c2 c3 c4 c5 one_answer_step by blast
qed

theorem second_answer_rejected_witness:
  "answer_question after_first_answer 101 alice 1 1 2
     = Inl (HTTPException 400 Already_answered)
   \<and> isl (answer_question after_first_answer 101 bob 1 1 3)
   \<and> step cfg0 after_first_answer (101, AnswerQuestion alice_access 1 1 3) = after_first_answer"
  using second_answer_rejected [OF first_answer, of 101 3 bob cfg0 alice_access]
  by simp

text \<open>
  The claim as first stated promises Conflict for every second call: with an option that
  does not exist the second call fails with 404 instead.
\<close>

theorem second_answer_rejected_counterexample:
  "\<not> isl (answer_question (exam_db 20 0 0 in_progress) 100 alice 1 1 2)
   \<and> answer_question after_first_answer 101 alice 1 1 999
       = Inl (HTTPException 404 Option_not_found)"
proof -
  have i: "\<not> isl (answer_question (exam_db 20 0 0 in_progress) 100 alice 1 1 2)"
    using first_answer by (metis sum.disc(2))
  from after_answer_state(1) [OF first_answer] obtain exam' :: Exam where
    f': "find (\<lambda>e. e_id e = 1) (exams after_first_answer) = Some exam'"
    and ow: "e_user_id exam' = u_id alice" and st: "e_status exam' = in_progress"
    by blast
  note a' = after_answer_state(2) [OF first_answer]
  have q': "find (\<lambda>q. q_id q = 1) (questions after_first_answer) \<noteq> None"
    using after_answer_state(3,5) [OF first_answer] by simp
  have "answer_options after_first_answer = catalog_options 20"
    using after_answer_state(4) [OF first_answer] by simp
  then have o': "find (\<lambda>opt. o_id opt = 999 \<and> o_question_id opt = 1)
                   (answer_options after_first_answer) = None"
    using catalog_option_bound [of _ 20] by (fastforce simp: find_None_iff)
  show ?thesis
    using i ow st q' o' by (simp add: answer_question_answered [OF f' a'])
qed

section \<open>The score counts the correct answers\<close>














lemma length_catalog_questions [simp]: "length (catalog_questions m) = nat m"
  by (simp add: catalog_questions_def)







section \<open>Terminal sessions\<close>








lemma exam_db_answers_of_1:
  "exam_answers_of (exam_db m n k st) 1 = answers_upto n k"
  by (simp add: exam_answers_of_def answers_upto_def filter_map comp_def)


end
